theory Spec2Isabelle
  imports Main
begin

section \<open>Plotting helpers of \<^verbatim>\<open>geolog/src/utils.py\<close>\<close>

text \<open>
  The module holds a scroll-through-frames helper (\<^verbatim>\<open>IndexTracker\<close>) and two plotting
  functions (\<^verbatim>\<open>seismic_plot\<close>, \<^verbatim>\<open>spectrum_plot\<close>). Everything they do is a call into
  NumPy or matplotlib, so the embedding keeps two things: the values the module computes
  itself (the scroll index, the arguments of every call) and the order of the calls.
  An axes object is the list of the method calls it has received, a figure the list of
  the \<^verbatim>\<open>pyplot\<close> calls made; an exception is a value returned together with the calls
  made before it was raised. Python integers are \<open>int\<close>; a NumPy integer is an \<open>int\<close>
  together with its type, and its arithmetic wraps at 64 bits as written out below
  (NumPy 2, where a Python integer operand takes the type of the NumPy operand). The
  samples and frequencies are values of a type \<open>'a\<close> that is left open: the
  floating-point operations of NumPy are a parameter of \<^verbatim>\<open>spectrum_plot\<close>.
\<close>

subsection \<open>Python and NumPy values\<close>

datatype py_exception =
  IndexError | ValueError | NameError | ZeroDivisionError | OverflowError | TypeError
  | AttributeError

text \<open>\<^verbatim>\<open>xs[i]\<close> on a list or tuple: a negative index counts from the end, an index out of
  range raises.\<close>

definition py_getitem :: "'a list \<Rightarrow> int \<Rightarrow> py_exception + 'a" where
  "py_getitem xs i =
     (let n = int (length xs); j = (if i < 0 then i + n else i)
      in if 0 \<le> j \<and> j < n then Inr (xs ! nat j) else Inl IndexError)"

text \<open>A 2-D array: its rows, and the number of columns (which the rows of an array with
  no row cannot tell). \<^verbatim>\<open>a.shape\<close> is the pair, \<^verbatim>\<open>a.T\<close> swaps the two axes.\<close>

record 'a ndarray =
  ncols :: nat
  rows :: "'a list list"

definition shape :: "'a ndarray \<Rightarrow> nat \<times> nat" where
  "shape a = (length (rows a), ncols a)"

definition T :: "'a ndarray \<Rightarrow> 'a ndarray" where
  "T a = \<lparr>ncols = length (rows a),
          rows = map (\<lambda>j. map (\<lambda>r. r ! j) (rows a)) [0..<ncols a]\<rparr>"

text \<open>\<^verbatim>\<open>np.clip(x, a_min, a_max)\<close> is \<^verbatim>\<open>minimum(maximum(x, a_min), a_max)\<close>.\<close>

definition clip :: "int \<Rightarrow> int \<Rightarrow> int \<Rightarrow> int" where
  "clip x a_min a_max = min (max x a_min) a_max"

text \<open>The type of the object bound to \<^verbatim>\<open>self.ind\<close>: a Python \<^verbatim>\<open>int\<close> after \<^verbatim>\<open>__init__\<close>, a
  \<^verbatim>\<open>numpy.int64\<close> or \<^verbatim>\<open>numpy.uint64\<close> once \<^verbatim>\<open>np.clip\<close> has returned it. The value is kept
  as an \<open>int\<close>; the two functions give the value a 64-bit result wraps to.\<close>

datatype int_type = PyInt | Int64 | UInt64

definition wrap_int64 :: "int \<Rightarrow> int" where
  "wrap_int64 v = (v + 2 ^ 63) mod 2 ^ 64 - 2 ^ 63"

definition wrap_uint64 :: "int \<Rightarrow> int" where
  "wrap_uint64 v = v mod 2 ^ 64"

text \<open>\<^verbatim>\<open>x + k\<close> and \<^verbatim>\<open>x - k\<close> for \<open>x\<close> of type \<open>t\<close> and a Python \<^verbatim>\<open>int\<close> \<open>k\<close>. Two Python
  integers add exactly. With a NumPy scalar, \<open>k\<close> is converted to the scalar's type
  (\<^verbatim>\<open>OverflowError\<close> when it does not fit) and the result wraps, with a warning only.\<close>

definition scalar_add :: "int_type \<Rightarrow> int \<Rightarrow> int \<Rightarrow> py_exception + int" where
  "scalar_add t x k =
     (case t of
        PyInt \<Rightarrow> Inr (x + k)
      | Int64 \<Rightarrow>
          if - (2 ^ 63) \<le> k \<and> k < 2 ^ 63 then Inr (wrap_int64 (x + k)) else Inl OverflowError
      | UInt64 \<Rightarrow>
          if 0 \<le> k \<and> k < 2 ^ 64 then Inr (wrap_uint64 (x + k)) else Inl OverflowError)"

definition scalar_sub :: "int_type \<Rightarrow> int \<Rightarrow> int \<Rightarrow> py_exception + int" where
  "scalar_sub t x k =
     (case t of
        PyInt \<Rightarrow> Inr (x - k)
      | Int64 \<Rightarrow>
          if - (2 ^ 63) \<le> k \<and> k < 2 ^ 63 then Inr (wrap_int64 (x - k)) else Inl OverflowError
      | UInt64 \<Rightarrow>
          if 0 \<le> k \<and> k < 2 ^ 64 then Inr (wrap_uint64 (x - k)) else Inl OverflowError)"

text \<open>The type of \<^verbatim>\<open>np.clip(x, a_min, a_max)\<close> for Python integer bounds: that of \<open>x\<close> when
  \<open>x\<close> is a NumPy scalar. A Python \<^verbatim>\<open>int\<close> is first made an array: of \<^verbatim>\<open>int64\<close> when it
  fits, else of \<^verbatim>\<open>uint64\<close> when it fits, else of Python objects, whose result is a Python
  \<^verbatim>\<open>int\<close> again.\<close>

definition clip_type :: "int_type \<Rightarrow> int \<Rightarrow> int_type" where
  "clip_type t x =
     (case t of
        PyInt \<Rightarrow>
          if - (2 ^ 63) \<le> x \<and> x < 2 ^ 63 then Int64
          else if 2 ^ 63 \<le> x \<and> x < 2 ^ 64 then UInt64 else PyInt
      | Int64 \<Rightarrow> Int64
      | UInt64 \<Rightarrow> UInt64)"

text \<open>\<^verbatim>\<open>np.clip(x, 0, a_max)\<close> with its value and type. A bound beyond the range of the type
  is dropped, not converted; only a negative \<open>a_max\<close> (no frame at all) cannot be
  converted to \<^verbatim>\<open>uint64\<close>.\<close>

definition np_clip :: "int_type \<Rightarrow> int \<Rightarrow> int \<Rightarrow> py_exception + int \<times> int_type" where
  "np_clip t x a_max =
     (if clip_type t x = UInt64 \<and> a_max < 0 then Inl OverflowError
      else Inr (clip x 0 a_max, clip_type t x))"

subsection \<open>Calls on the rendering surface\<close>

datatype rectangle = Rectangle "int \<times> int" int int string string nat

text \<open>The methods of an axes object that the module calls, with their arguments:
  \<open>Imshow\<close> carries the image and the keyword arguments passed through, \<open>Plot\<close> the two
  series and the line width, \<open>Rectangle\<close> the corner, width, height, edge colour, face
  colour and line width of the patch.\<close>

datatype ('a, 'k) ax_call =
    Clear
  | Imshow "'a ndarray" 'k
  | Set_title string
  | Set_aspect string
  | Set_ylim "int list"
  | Set_xlim "int list"
  | Add_patch rectangle
  | Plot "'a list" "'a list" nat
  | Set_xlabel string

subsection \<open>\<^verbatim>\<open>IndexTracker\<close>\<close>

text \<open>A scroll event of matplotlib: the direction (\<^verbatim>\<open>event.button\<close>, \<^verbatim>\<open>'up'\<close> or
  \<^verbatim>\<open>'down'\<close>) and the number of steps scrolled (\<^verbatim>\<open>event.step\<close>).\<close>

record scroll_event =
  button :: string
  event_step :: int

text \<open>The attributes of the object, as \<^verbatim>\<open>__init__\<close> sets them. \<open>ax\<close> is the axes object
  the tracker draws on, as the calls it has received so far. \<open>ind\<close> and \<open>ind_type\<close> are
  the value and the type of \<^verbatim>\<open>self.ind\<close>. \<open>stdout\<close> is not an
  attribute: it is what \<^verbatim>\<open>print\<close> has written (one pair of values per line), kept with
  the object so that the \<^verbatim>\<open>print\<close> of \<^verbatim>\<open>onscroll\<close> is a state update like the others.\<close>

record ('a, 'k) IndexTracker =
  ax :: "('a, 'k) ax_call list"
  frames :: "'a ndarray list"
  step :: int
  frame_names :: "string list"
  img_kwargs :: 'k
  ind :: int
  ind_type :: int_type
  stdout :: "(string \<times> int) list"

text \<open>\<^verbatim>\<open>update\<close> (lines 29-37). The two subscripts can raise \<^verbatim>\<open>IndexError\<close>; the calls
  made before stay made.\<close>

definition update ::
  "('a, 'k) IndexTracker \<Rightarrow> py_exception option \<times> ('a, 'k) IndexTracker" where
  "update self =
     (let s1 = self\<lparr>ax := ax self @ [Clear]\<rparr> in
      case py_getitem (frames s1) (ind s1) of
        Inl e \<Rightarrow> (Some e, s1)
      | Inr img \<Rightarrow>
          (let s2 = s1\<lparr>ax := ax s1 @ [Imshow (T img) (img_kwargs s1)]\<rparr> in
           case py_getitem (frame_names s2) (ind s2) of
             Inl e \<Rightarrow> (Some e, s2)
           | Inr name \<Rightarrow>
               (None, s2\<lparr>ax := ax s2 @
                  [Set_title name, Set_aspect ''auto'',
                   Set_ylim [int (snd (shape img)), 0],
                   Set_xlim [0, int (fst (shape img))]]\<rparr>)))"

text \<open>\<^verbatim>\<open>__init__\<close> (lines 11-18); \<open>out\<close> is the standard output at the time of the call.\<close>

definition IndexTracker_init ::
  "('a, 'k) ax_call list \<Rightarrow> 'a ndarray list \<Rightarrow> string list \<Rightarrow> int \<Rightarrow> 'k \<Rightarrow>
   (string \<times> int) list \<Rightarrow> py_exception option \<times> ('a, 'k) IndexTracker" where
  "IndexTracker_init ax0 frames0 frame_names0 scroll_step kwargs out =
     update \<lparr>ax = ax0, frames = frames0, step = scroll_step,
             frame_names = frame_names0, img_kwargs = kwargs,
             ind = int (length frames0 div 2), ind_type = PyInt, stdout = out\<rparr>"

text \<open>\<^verbatim>\<open>onscroll\<close> (lines 20-27). An exception raised by the sum or by \<^verbatim>\<open>np.clip\<close> leaves
  \<^verbatim>\<open>self.ind\<close> as it was, and \<^verbatim>\<open>update\<close> is not reached.\<close>

definition onscroll ::
  "scroll_event \<Rightarrow> ('a, 'k) IndexTracker \<Rightarrow> py_exception option \<times> ('a, 'k) IndexTracker" where
  "onscroll event self =
     (let s1 = self\<lparr>stdout := stdout self @ [(button event, event_step event)]\<rparr>;
          moved = (if button event = ''up''
                   then scalar_add (ind_type s1) (ind s1) (step s1)
                   else scalar_sub (ind_type s1) (ind s1) (step s1))
      in case moved of
           Inl e \<Rightarrow> (Some e, s1)
         | Inr x \<Rightarrow>
             (case np_clip (ind_type s1) x (int (length (frames s1)) - 1) of
                Inl e \<Rightarrow> (Some e, s1)
              | Inr (i, t) \<Rightarrow> update (s1\<lparr>ind := i, ind_type := t\<rparr>)))"

text \<open>A session: the events are delivered one at a time, each to the object as the
  previous handler left it (an exception raised in a handler does not undo the
  assignments made before it). The result lists, per event, what the handler raised
  and the object after it.\<close>

fun run ::
  "('a, 'k) IndexTracker \<Rightarrow> scroll_event list \<Rightarrow>
   (py_exception option \<times> ('a, 'k) IndexTracker) list" where
  "run self [] = []"
| "run self (e # es) = onscroll e self # run (snd (onscroll e self)) es"

subsection \<open>Arguments of the plotting functions\<close>

text \<open>\<^verbatim>\<open>arrs\<close> is one 2-D array or a sequence of 2-D arrays; \<^verbatim>\<open>names\<close> is one string or
  a sequence of strings (or \<^verbatim>\<open>None\<close>: the option type).\<close>

datatype 'a arrs_arg = Single "'a ndarray" | Seq "'a ndarray list"

datatype names_arg = Name string | Names "string list"

text \<open>A call on \<^verbatim>\<open>pyplot\<close> or on one of the axes of the grid that \<^verbatim>\<open>plt.subplots\<close>
  returned: \<open>Ax r c call\<close> is \<^verbatim>\<open>ax[r, c].call(...)\<close>.\<close>

datatype ('a, 'k, 'f) plt_call =
    Subplots nat nat "'f option"
  | Ax nat nat "('a, 'k) ax_call"
  | Savefig string
  | Show

text \<open>\<^verbatim>\<open>np.asarray(arrs).ndim\<close>. A 2-D array has 2 dimensions. A sequence of 2-D arrays
  of one shape is stacked into a 3-D array, the empty sequence becomes a 1-D array of
  length 0, and a sequence of arrays of different shapes cannot be stacked: NumPy (from
  1.24) raises \<^verbatim>\<open>ValueError\<close>.\<close>

fun asarray_ndim :: "'a arrs_arg \<Rightarrow> py_exception + nat" where
  "asarray_ndim (Single a) = Inr 2"
| "asarray_ndim (Seq []) = Inr 1"
| "asarray_ndim (Seq (a # as)) =
     (if list_all (\<lambda>b. shape b = shape a) as then Inr 3 else Inl ValueError)"

text \<open>What the loops iterate over. After \<^verbatim>\<open>arrs = (arrs,)\<close> the only element is \<^verbatim>\<open>arrs\<close>
  itself, a 2-D array or a sequence; iterating over a sequence gives its 2-D arrays, and
  iterating over a 2-D array gives its rows, which are 1-D arrays.\<close>

datatype 'a element = Array2 "'a ndarray" | Array1 "'a list" | Nested "'a ndarray list"

text \<open>Lines 83-84 and 126-127: \<^verbatim>\<open>if np.asarray(arrs).ndim == 2: arrs = (arrs,)\<close>, followed
  by the elements of \<^verbatim>\<open>arrs\<close>; \<open>d\<close> is the \<^verbatim>\<open>ndim\<close> found.\<close>

definition elements :: "nat \<Rightarrow> 'a arrs_arg \<Rightarrow> 'a element list" where
  "elements d arrs =
     (if d = 2 then [case arrs of Single a \<Rightarrow> Array2 a | Seq as \<Rightarrow> Nested as]
      else (case arrs of Single a \<Rightarrow> map Array1 (rows a) | Seq as \<Rightarrow> map Array2 as))"

text \<open>\<^verbatim>\<open>ax[0, i].imshow(arr.T, **kwargs)\<close>, the first statement of both loops: a tuple or
  list has no attribute \<^verbatim>\<open>T\<close>, and \<^verbatim>\<open>imshow\<close> refuses 1-D data with \<^verbatim>\<open>TypeError\<close>.\<close>

definition imshow_T ::
  "nat \<Rightarrow> 'a element \<Rightarrow> 'k \<Rightarrow> py_exception + ('a, 'k, 'f) plt_call \<times> 'a ndarray" where
  "imshow_T i el kwargs =
     (case el of
        Array2 arr \<Rightarrow> Inr (Ax 0 i (Imshow (T arr) kwargs), arr)
      | Array1 r \<Rightarrow> Inl TypeError
      | Nested as \<Rightarrow> Inl AttributeError)"

text \<open>Lines 86-87 and 129-130: \<^verbatim>\<open>if isinstance(names, str): names = (names,)\<close>.\<close>

fun names_sequence :: "names_arg \<Rightarrow> string list" where
  "names_sequence (Name s) = [s]"
| "names_sequence (Names ss) = ss"

text \<open>\<^verbatim>\<open>plt.subplots(nrows, ncols, figsize=figsize, squeeze=False)\<close>: matplotlib refuses
  a grid with no column with \<^verbatim>\<open>ValueError\<close>.\<close>

definition subplots ::
  "nat \<Rightarrow> nat \<Rightarrow> 'f option \<Rightarrow> py_exception + ('a, 'k, 'f) plt_call list" where
  "subplots nr nc figsize =
     (if nr = 0 \<or> nc = 0 then Inl ValueError else Inr [Subplots nr nc figsize])"

subsection \<open>\<^verbatim>\<open>seismic_plot\<close>\<close>

text \<open>The loop of lines 90-95 over \<^verbatim>\<open>enumerate(arrs)\<close>; \<open>fig\<close> is the list of calls made so
  far.\<close>

fun seismic_loop ::
  "string list option \<Rightarrow> 'k \<Rightarrow> (nat \<times> 'a element) list \<Rightarrow> ('a, 'k, 'f) plt_call list \<Rightarrow>
   py_exception option \<times> ('a, 'k, 'f) plt_call list" where
  "seismic_loop names kwargs [] fig = (None, fig)"
| "seismic_loop names kwargs ((i, el) # rest) fig =
     (case imshow_T i el kwargs of
        Inl e \<Rightarrow> (Some e, fig)
      | Inr (shown, arr) \<Rightarrow>
          (let fig1 = fig @ [shown] in
           case names of
             None \<Rightarrow> seismic_loop names kwargs rest (fig1 @ [Ax 0 i (Set_aspect ''auto'')])
           | Some ns \<Rightarrow>
               (case py_getitem ns (int i) of
                  Inl e \<Rightarrow> (Some e, fig1)
                | Inr name \<Rightarrow>
                    seismic_loop names kwargs rest
                      (fig1 @ [Ax 0 i (Set_title name), Ax 0 i (Set_aspect ''auto'')]))))"

text \<open>\<^verbatim>\<open>seismic_plot\<close> (lines 63-97). The result is the exception raised, if any, and the
  calls made.\<close>

definition seismic_plot ::
  "'a arrs_arg \<Rightarrow> names_arg option \<Rightarrow> 'f option \<Rightarrow> string option \<Rightarrow> 'k \<Rightarrow>
   py_exception option \<times> ('a, 'k, 'f) plt_call list" where
  "seismic_plot arrs names figsize save_to kwargs =
     (case asarray_ndim arrs of
        Inl e \<Rightarrow> (Some e, [])
      | Inr d \<Rightarrow>
          (let arrs1 = elements d arrs;
               names1 = map_option names_sequence names
           in case subplots 1 (length arrs1) figsize of
                Inl e \<Rightarrow> (Some e, [])
              | Inr fig \<Rightarrow>
                  (case seismic_loop names1 kwargs (enumerate 0 arrs1) fig of
                     (Some e, fig1) \<Rightarrow> (Some e, fig1)
                   | (None, fig1) \<Rightarrow> (None, fig1 @ [Show]))))"

subsection \<open>\<^verbatim>\<open>spectrum_plot\<close>\<close>

text \<open>A slice \<^verbatim>\<open>slice(start, stop)\<close> with integer bounds, and the indices it selects on an
  axis of length \<open>n\<close>: a negative bound counts from the end, and a bound out of range is
  clamped, never an error.\<close>

record slice =
  start :: int
  stop :: int

definition slice_bound :: "int \<Rightarrow> nat \<Rightarrow> nat" where
  "slice_bound b n = (if b < 0 then nat (max (b + int n) 0) else min (nat b) n)"

definition slice_indices :: "slice \<Rightarrow> nat \<Rightarrow> nat list" where
  "slice_indices s n = [slice_bound (start s) n ..< slice_bound (stop s) n]"

text \<open>\<^verbatim>\<open>arr[frame]\<close> for a pair of slices: the block of the selected rows and columns.\<close>

definition getitem_frame :: "'a ndarray \<Rightarrow> slice \<times> slice \<Rightarrow> 'a ndarray" where
  "getitem_frame arr frame =
     (let cs = slice_indices (snd frame) (ncols arr)
      in \<lparr>ncols = length cs,
          rows = map (\<lambda>i. map (\<lambda>j. rows arr ! i ! j) cs)
                   (slice_indices (fst frame) (length (rows arr)))\<rparr>)"

text \<open>The floating-point results of NumPy that \<^verbatim>\<open>spectrum_plot\<close> uses, as a parameter:
  \<open>bin_power x k\<close> is entry \<open>k\<close> of \<^verbatim>\<open>abs(np.fft.rfft(x))**2\<close> for a row \<open>x\<close>, \<open>column_mean\<close>
  the \<^verbatim>\<open>np.mean\<close> of one column, \<open>bin_freq n d k\<close> entry \<open>k\<close> of \<^verbatim>\<open>np.fft.rfftfreq(n, d)\<close>,
  \<open>zero_division n d\<close> whether \<^verbatim>\<open>1.0/(n*d)\<close> divides by zero, and \<open>float_le\<close> the
  comparison \<^verbatim>\<open><=\<close>. Nothing is assumed about them.\<close>

record 'a numpy =
  bin_power :: "'a list \<Rightarrow> nat \<Rightarrow> 'a"
  column_mean :: "'a list \<Rightarrow> 'a"
  bin_freq :: "nat \<Rightarrow> 'a \<Rightarrow> nat \<Rightarrow> 'a"
  zero_division :: "nat \<Rightarrow> 'a \<Rightarrow> bool"
  float_le :: "'a \<Rightarrow> 'a \<Rightarrow> bool"

text \<open>\<^verbatim>\<open>abs(np.fft.rfft(block, axis=1))**2\<close>: the bins \<open>0 .. n div 2\<close> of every row of
  length \<open>n\<close>; the transform needs at least one sample along the axis (\<^verbatim>\<open>ValueError\<close>
  otherwise).\<close>

definition power_spectrum :: "'a numpy \<Rightarrow> 'a ndarray \<Rightarrow> py_exception + 'a ndarray" where
  "power_spectrum np block =
     (if ncols block = 0 then Inl ValueError
      else Inr \<lparr>ncols = ncols block div 2 + 1,
                rows = map (\<lambda>x. map (bin_power np x) [0..<length x div 2 + 1]) (rows block)\<rparr>)"

text \<open>\<^verbatim>\<open>np.fft.rfftfreq(n, d)\<close> computes \<^verbatim>\<open>val = 1.0/(n*d)\<close> and returns
  \<^verbatim>\<open>arange(0, n//2 + 1) * val\<close>.\<close>

definition rfftfreq :: "'a numpy \<Rightarrow> nat \<Rightarrow> 'a \<Rightarrow> py_exception + 'a list" where
  "rfftfreq np n d =
     (if zero_division np n d then Inl ZeroDivisionError
      else Inr (map (bin_freq np n d) [0..<n div 2 + 1]))"

text \<open>\<^verbatim>\<open>np.mean(a, axis=0)\<close>: the mean of every column.\<close>

definition mean_axis0 :: "'a numpy \<Rightarrow> 'a ndarray \<Rightarrow> 'a list" where
  "mean_axis0 np a = map (\<lambda>k. column_mean np (map (\<lambda>r. r ! k) (rows a))) [0..<ncols a]"

text \<open>\<^verbatim>\<open>xs[mask]\<close> for a 1-D array and a Boolean array: the entries where the mask holds;
  the lengths must agree.\<close>

definition getitem_mask :: "'b list \<Rightarrow> bool list \<Rightarrow> py_exception + 'b list" where
  "getitem_mask xs msk =
     (if length msk = length xs then Inr (map fst (filter snd (zip xs msk)))
      else Inl IndexError)"

text \<open>Lines 143-146, up to the arguments of \<^verbatim>\<open>plot\<close>. \<open>timestep\<close> is the binding of the
  global name \<^verbatim>\<open>timestep\<close> in the module when the line runs: the module itself never
  assigns it, and reading an unbound name raises \<^verbatim>\<open>NameError\<close>. Without \<^verbatim>\<open>max_freq\<close>
  the mask is \<^verbatim>\<open>freqs\<close> itself, an array of floating-point numbers, and NumPy refuses
  such an index with \<^verbatim>\<open>IndexError\<close>. \<^verbatim>\<open>arr[frame][0]\<close> needs a first row. The mask compares
  the bins as NumPy computed them with \<^verbatim>\<open>max_freq\<close>.\<close>

definition plot_args ::
  "'a numpy \<Rightarrow> 'a option \<Rightarrow> slice \<times> slice \<Rightarrow> 'a option \<Rightarrow> 'a ndarray \<Rightarrow>
   py_exception + 'a list \<times> 'a list" where
  "plot_args np timestep frame max_freq arr =
     (case power_spectrum np (getitem_frame arr frame) of
        Inl e \<Rightarrow> Inl e
      | Inr spec \<Rightarrow>
          (case py_getitem (rows (getitem_frame arr frame)) 0 of
             Inl e \<Rightarrow> Inl e
           | Inr row0 \<Rightarrow>
               (case timestep of
                  None \<Rightarrow> Inl NameError
                | Some d \<Rightarrow>
                    (case rfftfreq np (length row0) d of
                       Inl e \<Rightarrow> Inl e
                     | Inr freqs \<Rightarrow>
                         (case max_freq of
                            None \<Rightarrow> Inl IndexError
                          | Some mf \<Rightarrow>
                              (let msk = map (\<lambda>f. float_le np f mf) freqs in
                               case getitem_mask freqs msk of
                                 Inl e \<Rightarrow> Inl e
                               | Inr xs \<Rightarrow>
                                   (case getitem_mask (mean_axis0 np spec) msk of
                                      Inl e \<Rightarrow> Inl e
                                    | Inr ys \<Rightarrow> Inr (xs, ys))))))))"

text \<open>\<^verbatim>\<open>names[i] if names is not None else ''\<close>.\<close>

definition name_or_empty :: "string list option \<Rightarrow> nat \<Rightarrow> py_exception + string" where
  "name_or_empty names i = (case names of None \<Rightarrow> Inr [] | Some ns \<Rightarrow> py_getitem ns (int i))"

text \<open>The loop of lines 133-150.\<close>

fun spectrum_loop ::
  "'a numpy \<Rightarrow> 'a option \<Rightarrow> slice \<times> slice \<Rightarrow> 'a option \<Rightarrow> string list option \<Rightarrow> 'k \<Rightarrow>
   (nat \<times> 'a element) list \<Rightarrow> ('a, 'k, 'f) plt_call list \<Rightarrow>
   py_exception option \<times> ('a, 'k, 'f) plt_call list" where
  "spectrum_loop np timestep frame max_freq names kwargs [] fig = (None, fig)"
| "spectrum_loop np timestep frame max_freq names kwargs ((i, el) # rest) fig =
     (case imshow_T i el kwargs of
        Inl e \<Rightarrow> (Some e, fig)
      | Inr (shown, arr) \<Rightarrow>
     (let rect = Rectangle (start (fst frame), start (snd frame))
                   (stop (fst frame) - start (fst frame))
                   (stop (snd frame) - start (snd frame)) ''r'' ''none'' 2;
          fig1 = fig @ [shown, Ax 0 i (Add_patch rect)]
      in case name_or_empty names i of
           Inl e \<Rightarrow> (Some e, fig1)
         | Inr name \<Rightarrow>
             (let fig2 = fig1 @ [Ax 0 i (Set_title (''Seismogram '' @ name)),
                                 Ax 0 i (Set_aspect ''auto'')]
              in case plot_args np timestep frame max_freq arr of
                   Inl e \<Rightarrow> (Some e, fig2)
                 | Inr (xs, ys) \<Rightarrow>
                     (let fig3 = fig2 @ [Ax 1 i (Plot xs ys 2), Ax 1 i (Set_xlabel ''Hz'')]
                      in case name_or_empty names i of
                           Inl e \<Rightarrow> (Some e, fig3)
                         | Inr name2 \<Rightarrow>
                             spectrum_loop np timestep frame max_freq names kwargs rest
                               (fig3 @ [Ax 1 i (Set_title (''Spectrum plot '' @ name2)),
                                        Ax 1 i (Set_aspect ''auto'')])))))"

text \<open>\<^verbatim>\<open>spectrum_plot\<close> (lines 99-155); the first two arguments are NumPy's floating-point
  operations and the global \<^verbatim>\<open>timestep\<close> (see \<open>plot_args\<close>).\<close>

definition spectrum_plot ::
  "'a numpy \<Rightarrow> 'a option \<Rightarrow> slice \<times> slice \<Rightarrow> 'a arrs_arg \<Rightarrow> 'r \<Rightarrow> 'a option \<Rightarrow>
   names_arg option \<Rightarrow> 'f option \<Rightarrow> string option \<Rightarrow> 'k \<Rightarrow>
   py_exception option \<times> ('a, 'k, 'f) plt_call list" where
  "spectrum_plot np timestep frame arrs rate max_freq names figsize save_to kwargs =
     (case asarray_ndim arrs of
        Inl e \<Rightarrow> (Some e, [])
      | Inr d \<Rightarrow>
          (let arrs1 = elements d arrs;
               names1 = map_option names_sequence names
           in case subplots 2 (length arrs1) figsize of
                Inl e \<Rightarrow> (Some e, [])
              | Inr fig \<Rightarrow>
                  (case spectrum_loop np timestep frame max_freq names1 kwargs
                          (enumerate 0 arrs1) fig of
                     (Some e, fig1) \<Rightarrow> (Some e, fig1)
                   | (None, fig1) \<Rightarrow>
                       (None, fig1 @ (case save_to of None \<Rightarrow> [] | Some path \<Rightarrow> [Savefig path])
                                   @ [Show]))))"

subsection \<open>Concrete inputs\<close>

text \<open>\<^verbatim>\<open>np.zeros((r, c))\<close>, and a scroll event with the given direction and step count.\<close>

definition zeros :: "nat \<Rightarrow> nat \<Rightarrow> 'a::zero ndarray" where
  "zeros r c = \<lparr>ncols = c, rows = replicate r (replicate c 0)\<rparr>"

definition scroll :: "string \<Rightarrow> int \<Rightarrow> scroll_event" where
  "scroll b n = \<lparr>button = b, event_step = n\<rparr>"

section \<open>Properties\<close>

subsection \<open>The scroll index\<close>

lemma update_keeps:
  "frames (snd (update s)) = frames s \<and> step (snd (update s)) = step s \<and>
   frame_names (snd (update s)) = frame_names s \<and> img_kwargs (snd (update s)) = img_kwargs s \<and>
   ind (snd (update s)) = ind s \<and> ind_type (snd (update s)) = ind_type s \<and>
   stdout (snd (update s)) = stdout s"
  by (simp add: update_def Let_def split: sum.splits)

lemma update_drawn:
  assumes "0 \<le> ind s" and "ind s < int (length (frames s))"
    and "ind s < int (length (frame_names s))"
  shows "update s =
     (None, s\<lparr>ax := ax s @
        [Clear, Imshow (T (frames s ! nat (ind s))) (img_kwargs s),
         Set_title (frame_names s ! nat (ind s)), Set_aspect ''auto'',
         Set_ylim [int (snd (shape (frames s ! nat (ind s)))), 0],
         Set_xlim [0, int (fst (shape (frames s ! nat (ind s))))]]\<rparr>)"
  using assms by (simp add: update_def py_getitem_def Let_def)

lemma update_raises:
  "fst (update s) = None \<longleftrightarrow>
     (let n = int (length (frames s)); m = int (length (frame_names s));
          i = (if ind s < 0 then ind s + n else ind s);
          j = (if ind s < 0 then ind s + m else ind s)
      in 0 \<le> i \<and> i < n \<and> 0 \<le> j \<and> j < m)"
  by (simp add: update_def py_getitem_def Let_def split: sum.splits)

lemma wrap_int64_id: "- (2 ^ 63) \<le> v \<Longrightarrow> v < 2 ^ 63 \<Longrightarrow> wrap_int64 v = v"
  by (simp add: wrap_int64_def)

lemma wrap_uint64_id: "0 \<le> v \<Longrightarrow> v < 2 ^ 64 \<Longrightarrow> wrap_uint64 v = v"
  by (simp add: wrap_uint64_def)

lemma onscroll_keeps:
  "frames (snd (onscroll e s)) = frames s \<and> step (snd (onscroll e s)) = step s \<and>
   frame_names (snd (onscroll e s)) = frame_names s \<and>
   img_kwargs (snd (onscroll e s)) = img_kwargs s \<and>
   stdout (snd (onscroll e s)) = stdout s @ [(button e, event_step e)]"
  by (simp add: onscroll_def Let_def update_keeps split: sum.splits prod.splits)

lemma onscroll_in_range:
  assumes "frames s \<noteq> []" and "0 \<le> ind s" and "ind s \<le> int (length (frames s)) - 1"
  shows "0 \<le> ind (snd (onscroll e s)) \<and> ind (snd (onscroll e s)) \<le> int (length (frames s)) - 1"
proof -
  have n: "0 \<le> int (length (frames s)) - 1" using assms(1) by (cases "frames s") simp_all
  then have "0 \<le> clip x 0 (int (length (frames s)) - 1) \<and>
      clip x 0 (int (length (frames s)) - 1) \<le> int (length (frames s)) - 1" for x
    by (simp add: clip_def)
  with assms(2,3) show ?thesis
    by (auto simp add: onscroll_def Let_def update_keeps np_clip_def
        split: sum.splits prod.splits if_splits)
qed

lemma onscroll_exact:
  assumes "ind_type s \<noteq> UInt64" and "0 \<le> ind s" and "ind s < int (length (frames s))"
    and "\<bar>step s\<bar> + int (length (frames s)) \<le> 2 ^ 63"
  shows "onscroll e s =
     update (s\<lparr>stdout := stdout s @ [(button e, event_step e)],
       ind := (if button e = ''up''
               then min (max (ind s + step s) 0) (int (length (frames s)) - 1)
               else min (max (ind s - step s) 0) (int (length (frames s)) - 1)),
       ind_type := Int64\<rparr>)"
proof -
  have k: "- (2 ^ 63) \<le> step s" "step s < 2 ^ 63" using assms(2,3,4) by simp_all
  have up: "- (2 ^ 63) \<le> ind s + step s" "ind s + step s < 2 ^ 63" using assms(2,3,4) by simp_all
  have down: "- (2 ^ 63) \<le> ind s - step s" "ind s - step s < 2 ^ 63"
    using assms(2,3,4) by simp_all
  show ?thesis
  proof (cases "ind_type s")
    case PyInt
    with up down show ?thesis
      by (simp add: onscroll_def Let_def scalar_add_def scalar_sub_def np_clip_def clip_type_def
          clip_def)
  next
    case Int64
    with k up down show ?thesis
      by (simp add: onscroll_def Let_def scalar_add_def scalar_sub_def np_clip_def clip_type_def
          clip_def wrap_int64_id)
  next
    case UInt64
    with assms(1) show ?thesis by simp
  qed
qed

lemma run_length: "length (run s es) = length es"
  by (induction es arbitrary: s) simp_all

lemma run_nth:
  "k < length es \<Longrightarrow> run s es ! k = onscroll (es ! k) ((s # map snd (run s es)) ! k)"
proof (induction es arbitrary: s k)
  case Nil
  then show ?case by simp
next
  case (Cons e es)
  show ?case
  proof (cases k)
    case 0
    then show ?thesis by simp
  next
    case (Suc j)
    with Cons.prems have "j < length es" by simp
    from Cons.IH [OF this, of "snd (onscroll e s)"] Suc show ?thesis by simp
  qed
qed

lemma run_state_keeps:
  "k \<le> length es \<Longrightarrow>
   frames ((s # map snd (run s es)) ! k) = frames s \<and>
   step ((s # map snd (run s es)) ! k) = step s \<and>
   frame_names ((s # map snd (run s es)) ! k) = frame_names s"
proof (induction es arbitrary: s k)
  case Nil
  then show ?case by simp
next
  case (Cons e es)
  show ?case
  proof (cases k)
    case 0
    then show ?thesis by simp
  next
    case (Suc j)
    with Cons.prems have "j \<le> length es" by simp
    from Cons.IH [OF this, of "snd (onscroll e s)"] Suc show ?thesis
      by (simp add: onscroll_keeps)
  qed
qed

lemma run_state_in_range:
  assumes "frames s \<noteq> []" and "0 \<le> ind s" and "ind s \<le> int (length (frames s)) - 1"
    and "k \<le> length es"
  shows "0 \<le> ind ((s # map snd (run s es)) ! k) \<and>
         ind ((s # map snd (run s es)) ! k) \<le> int (length (frames s)) - 1"
  using assms
proof (induction es arbitrary: s k)
  case Nil
  then show ?case by simp
next
  case (Cons e es)
  show ?case
  proof (cases k)
    case 0
    with Cons.prems show ?thesis by simp
  next
    case (Suc j)
    with Cons.prems have j: "j \<le> length es" by simp
    have f: "frames (snd (onscroll e s)) = frames s" by (simp add: onscroll_keeps)
    from Cons.IH [of "snd (onscroll e s)" j] f j Cons.prems(1)
      onscroll_in_range [OF Cons.prems(1,2,3), of e] Suc
    show ?thesis by simp
  qed
qed

lemma run_state_type:
  assumes "ind_type s \<noteq> UInt64" and "0 \<le> ind s" and "ind s < int (length (frames s))"
    and "\<bar>step s\<bar> + int (length (frames s)) \<le> 2 ^ 63" and "k \<le> length es"
  shows "ind_type ((s # map snd (run s es)) ! k) \<noteq> UInt64"
  using assms
proof (induction es arbitrary: s k)
  case Nil
  then show ?case by simp
next
  case (Cons e es)
  show ?case
  proof (cases k)
    case 0
    with Cons.prems show ?thesis by simp
  next
    case (Suc j)
    with Cons.prems have j: "j \<le> length es" by simp
    let ?s = "snd (onscroll e s)"
    have ne: "frames s \<noteq> []" using Cons.prems(2,3) by auto
    have keep: "frames ?s = frames s" "step ?s = step s" by (simp_all add: onscroll_keeps)
    have ty: "ind_type ?s = Int64"
      by (simp add: onscroll_exact [OF Cons.prems(1-4)] update_keeps)
    have rg: "0 \<le> ind ?s \<and> ind ?s \<le> int (length (frames s)) - 1"
      using onscroll_in_range [OF ne, of e] Cons.prems(2,3) by simp
    from Cons.IH [of ?s j] ty rg keep Cons.prems(4) j Suc show ?thesis by simp
  qed
qed

lemma scalar_add_raises: "scalar_add t x k = Inl e \<Longrightarrow> e = OverflowError"
  by (cases t) (simp_all add: scalar_add_def split: if_splits)

lemma scalar_sub_raises: "scalar_sub t x k = Inl e \<Longrightarrow> e = OverflowError"
  by (cases t) (simp_all add: scalar_sub_def split: if_splits)

lemma np_clip_raises: "np_clip t x m = Inl e \<Longrightarrow> e = OverflowError"
  by (simp add: np_clip_def split: if_splits)

lemma np_clip_value: "np_clip t x m = Inr (i, u) \<Longrightarrow> i = clip x 0 m"
  by (simp add: np_clip_def split: if_splits)

lemma onscroll_unfold:
  "onscroll e s =
     (case (if button e = ''up'' then scalar_add (ind_type s) (ind s) (step s)
            else scalar_sub (ind_type s) (ind s) (step s)) of
        Inl err \<Rightarrow> (Some err, s\<lparr>stdout := stdout s @ [(button e, event_step e)]\<rparr>)
      | Inr x \<Rightarrow>
          (case np_clip (ind_type s) x (int (length (frames s)) - 1) of
             Inl err \<Rightarrow> (Some err, s\<lparr>stdout := stdout s @ [(button e, event_step e)]\<rparr>)
           | Inr (i, t) \<Rightarrow>
               update (s\<lparr>stdout := stdout s @ [(button e, event_step e)],
                         ind := i, ind_type := t\<rparr>)))"
  by (simp add: onscroll_def Let_def split: sum.split prod.split)

lemma onscroll_cases:
  "(\<exists>s1. onscroll e s = (Some OverflowError, s1)) \<or>
   (\<exists>x t. onscroll e s =
      update (s\<lparr>stdout := stdout s @ [(button e, event_step e)],
                ind := clip x 0 (int (length (frames s)) - 1), ind_type := t\<rparr>))"
proof -
  let ?s1 = "s\<lparr>stdout := stdout s @ [(button e, event_step e)]\<rparr>"
  let ?moved = "if button e = ''up'' then scalar_add (ind_type s) (ind s) (step s)
                else scalar_sub (ind_type s) (ind s) (step s)"
  show ?thesis
  proof (cases ?moved)
    case (Inl err)
    then have "err = OverflowError"
      by (auto dest: scalar_add_raises scalar_sub_raises split: if_splits)
    with Inl have "onscroll e s = (Some OverflowError, ?s1)"
      by (simp only: onscroll_unfold sum.case)
    then show ?thesis by blast
  next
    case (Inr x)
    show ?thesis
    proof (cases "np_clip (ind_type s) x (int (length (frames s)) - 1)")
      case (Inl err)
      then have "err = OverflowError" by (rule np_clip_raises)
      with Inl Inr have "onscroll e s = (Some OverflowError, ?s1)"
        by (simp only: onscroll_unfold sum.case)
      then show ?thesis by blast
    next
      case r: (Inr it)
      obtain i t where it: "it = (i, t)" by (cases it)
      with r have "i = clip x 0 (int (length (frames s)) - 1)" by (simp add: np_clip_value)
      with r Inr it have "onscroll e s =
          update (s\<lparr>stdout := stdout s @ [(button e, event_step e)],
                    ind := clip x 0 (int (length (frames s)) - 1), ind_type := t\<rparr>)"
        by (simp only: onscroll_unfold sum.case prod.case)
      then show ?thesis by blast
    qed
  qed
qed

lemma onscroll_ok:
  assumes "frames s \<noteq> []" and "length (frame_names s) = length (frames s)"
    and "fst (onscroll e s) \<noteq> Some OverflowError"
  shows "fst (onscroll e s) = None"
proof -
  have r: "0 \<le> clip x 0 (int (length (frames s)) - 1) \<and>
           clip x 0 (int (length (frames s)) - 1) < int (length (frames s))" for x
    using assms(1) by (cases "frames s") (simp_all add: clip_def)
  from onscroll_cases [of e s] assms(3) obtain x t where
    "onscroll e s = update (s\<lparr>stdout := stdout s @ [(button e, event_step e)],
        ind := clip x 0 (int (length (frames s)) - 1), ind_type := t\<rparr>)"
    by auto
  with assms(2) r show ?thesis by (simp add: update_raises)
qed

lemmas tracker_eval = IndexTracker_init_def onscroll_def update_def py_getitem_def clip_def
  scalar_add_def scalar_sub_def np_clip_def clip_type_def wrap_int64_def wrap_uint64_def
  Let_def scroll_def zeros_def

lemma onscroll_nonneg:
  assumes "frames s \<noteq> []" and "0 \<le> step s" and "step s < 2 ^ 63"
    and "v = (if button e = ''up'' then ind s + step s else ind s - step s)"
    and "0 \<le> v" and "v < 2 ^ 63"
  shows "onscroll e s =
     update (s\<lparr>stdout := stdout s @ [(button e, event_step e)],
       ind := min (max v 0) (int (length (frames s)) - 1),
       ind_type := clip_type (ind_type s) v\<rparr>)"
proof -
  have n: "\<not> int (length (frames s)) - 1 < 0" using assms(1) by (cases "frames s") simp_all
  have moved: "(if button e = ''up'' then scalar_add (ind_type s) (ind s) (step s)
                else scalar_sub (ind_type s) (ind s) (step s)) = Inr v"
    using assms(2-6)
    by (cases "ind_type s"; cases "button e = ''up''")
       (simp_all add: scalar_add_def scalar_sub_def wrap_int64_def wrap_uint64_def)
  show ?thesis
    unfolding onscroll_unfold moved using n by (simp add: np_clip_def clip_def)
qed

text \<open>A step that does not fit the type of the index is refused, and the index stays.\<close>

lemma onscroll_step_out_of_range:
  assumes "ind_type s = Int64" and "2 ^ 63 \<le> step s"
  shows "onscroll e s = (Some OverflowError, s\<lparr>stdout := stdout s @ [(button e, event_step e)]\<rparr>)"
  using assms by (simp add: onscroll_unfold scalar_add_def scalar_sub_def)

text \<open>C1, as stated: after every event the index is \<open>clamp (index + step) 0 (N - 1)\<close> or
  \<open>clamp (index - step) 0 (N - 1)\<close>, never wrapped. With 5 frames and the step \<open>2 ^ 63 - 1\<close>,
  the events down, up, up leave the index at 0, 4 and 0: the third sum, \<open>4 + (2 ^ 63 - 1)\<close>
  on a \<^verbatim>\<open>numpy.int64\<close>, wraps to a negative number and is clamped to 0, where the clamp of
  the exact sum is 4.\<close>

theorem scroll_index_wraps_counterexample:
  "map (\<lambda>(r, s). (r, ind s, ind_type s))
     (run (snd (IndexTracker_init [] (replicate 5 (zeros 10 10))
                  [''a'', ''b'', ''c'', ''d'', ''e''] (2 ^ 63 - 1) () []))
        [scroll ''down'' (- 1), scroll ''up'' 1, scroll ''up'' 1]) =
     [(None, 0, Int64), (None, 4, Int64), (None, 0, Int64)] \<and>
   min (max (4 + (2 ^ 63 - 1)) 0) (int (length (replicate 5 (zeros 10 10))) - 1) = 4"
  by (simp add: tracker_eval)

text \<open>C1, amended: for a scroller constructed on a non-empty frame sequence of length \<open>N\<close>
  and any finite sequence of scroll events, the index is in \<open>[0, N - 1]\<close> before and after
  every event, and every event yields a new state. When \<open>\<bar>step\<bar> + N \<le> 2 ^ 63\<close>, so that no
  sum leaves the range of \<^verbatim>\<open>numpy.int64\<close>, an \<^verbatim>\<open>'up'\<close> event sets the index to
  \<open>min (max (index + step) 0) (N - 1)\<close> and any other event to
  \<open>min (max (index - step) 0) (N - 1)\<close>, where \<open>step\<close> is the step the scroller was constructed
  with: clamped at both ends, not wrapped; and when there is a label for every frame no
  handler raises.\<close>

theorem scroll_index_in_range:
  assumes "frames0 \<noteq> []"
    and "s0 = snd (IndexTracker_init ax0 frames0 names0 scroll_step kwargs out)"
    and "k < length events"
  shows "length (run s0 events) = length events \<and>
    (let before = (s0 # map snd (run s0 events)) ! k;
         after = snd (run s0 events ! k);
         N = int (length frames0)
     in 0 \<le> ind before \<and> ind before \<le> N - 1 \<and> 0 \<le> ind after \<and> ind after \<le> N - 1 \<and>
        (\<bar>scroll_step\<bar> + N \<le> 2 ^ 63 \<longrightarrow>
           ind after =
             (if button (events ! k) = ''up'' then min (max (ind before + scroll_step) 0) (N - 1)
              else min (max (ind before - scroll_step) 0) (N - 1)) \<and>
           (length names0 = length frames0 \<longrightarrow> fst (run s0 events ! k) = None)))"
proof -
  let ?before = "(s0 # map snd (run s0 events)) ! k"
  let ?N = "int (length frames0)"
  have s0: "frames s0 = frames0" "step s0 = scroll_step" "frame_names s0 = names0"
    "ind s0 = int (length frames0 div 2)" "ind_type s0 = PyInt"
    using assms(2) by (simp_all add: IndexTracker_init_def update_keeps)
  have mid: "0 \<le> ind s0" "ind s0 \<le> ?N - 1"
    using s0(4) assms(1) by (cases frames0; simp)+
  have keep: "frames ?before = frames0" "step ?before = scroll_step"
    "frame_names ?before = names0"
    using run_state_keeps [of k events s0] assms(3) s0 by simp_all
  have nth: "run s0 events ! k = onscroll (events ! k) ?before"
    using run_nth [OF assms(3)] .
  have before: "0 \<le> ind ?before \<and> ind ?before \<le> ?N - 1"
    using run_state_in_range [of s0 k events] s0(1) assms(1,3) mid by simp
  have after: "0 \<le> ind (snd (onscroll (events ! k) ?before)) \<and>
      ind (snd (onscroll (events ! k) ?before)) \<le> ?N - 1"
    using onscroll_in_range [of ?before "events ! k"] keep assms(1) before by simp
  have exact: "onscroll (events ! k) ?before =
     update (?before\<lparr>stdout := stdout ?before @ [(button (events ! k), event_step (events ! k))],
       ind := (if button (events ! k) = ''up''
               then min (max (ind ?before + scroll_step) 0) (?N - 1)
               else min (max (ind ?before - scroll_step) 0) (?N - 1)),
       ind_type := Int64\<rparr>)"
    if b: "\<bar>scroll_step\<bar> + ?N \<le> 2 ^ 63"
  proof -
    have "ind_type ?before \<noteq> UInt64"
      using run_state_type [of s0 k events] s0 mid b assms(3) by simp
    from onscroll_exact [OF this, of "events ! k"] before keep b show ?thesis by simp
  qed
  have formula: "ind (snd (onscroll (events ! k) ?before)) =
     (if button (events ! k) = ''up'' then min (max (ind ?before + scroll_step) 0) (?N - 1)
      else min (max (ind ?before - scroll_step) 0) (?N - 1))"
    if b: "\<bar>scroll_step\<bar> + ?N \<le> 2 ^ 63"
    by (simp add: exact [OF b] update_keeps)
  have ok: "fst (onscroll (events ! k) ?before) = None"
    if b: "\<bar>scroll_step\<bar> + ?N \<le> 2 ^ 63" and l: "length names0 = length frames0"
  proof -
    have "0 \<le> min (max x 0) (?N - 1) \<and> min (max x 0) (?N - 1) < ?N" for x
      using assms(1) by (cases frames0) simp_all
    then show ?thesis
      using l keep by (simp add: exact [OF b] update_raises)
  qed
  show ?thesis
    using before after formula ok nth by (simp add: run_length Let_def)
qed

theorem scroll_index_in_range_witness:
  "replicate 5 (zeros 10 10) \<noteq> [] \<and> \<bar>3\<bar> + int (length (replicate 5 (zeros 10 10))) \<le> 2 ^ 63 \<and>
   map (\<lambda>(r, s). (r, ind s))
     (run (snd (IndexTracker_init [] (replicate 5 (zeros 10 10))
                  [''a'', ''b'', ''c'', ''d'', ''e''] 3 () []))
        [scroll ''up'' 1, scroll ''down'' (- 1), scroll ''down'' (- 1), scroll ''up'' 1]) =
     [(None, 4), (None, 1), (None, 0), (None, 3)]"
  using scroll_index_in_range [of "replicate 5 (zeros 10 10)" _ "[]"
      "[''a'', ''b'', ''c'', ''d'', ''e'']" 3 "()" "[]" 2
      "[scroll ''up'' 1, scroll ''down'' (- 1), scroll ''down'' (- 1), scroll ''up'' 1]",
      OF _ refl]
  by (simp add: tracker_eval)

text \<open>C5: for a non-empty frame sequence the constructor leaves the index at
  \<open>length frames div 2\<close>; it prints nothing (no event has been handled), it succeeds
  exactly when the label of the middle frame exists, and then the axes have received the
  calls of one redraw of the middle frame, after whatever they had received before.\<close>

theorem init_index_and_render:
  assumes "frames0 \<noteq> []"
    and "IndexTracker_init ax0 frames0 names0 scroll_step kwargs out = (r, s)"
  shows "ind s = int (length frames0 div 2) \<and> stdout s = out \<and>
     (r = None \<longleftrightarrow> length frames0 div 2 < length names0) \<and>
     (r = None \<longrightarrow>
        ax s = ax0 @
          [Clear, Imshow (T (frames0 ! (length frames0 div 2))) kwargs,
           Set_title (names0 ! (length frames0 div 2)), Set_aspect ''auto'',
           Set_ylim [int (snd (shape (frames0 ! (length frames0 div 2)))), 0],
           Set_xlim [0, int (fst (shape (frames0 ! (length frames0 div 2))))]])"
proof -
  have mid: "length frames0 div 2 < length frames0" using assms(1) by simp
  from assms(2) mid show ?thesis
    by (auto simp add: IndexTracker_init_def update_def py_getitem_def Let_def
        split: if_splits)
qed

theorem init_index_and_render_witness:
  "IndexTracker_init [] (replicate 5 \<lparr>ncols = 3, rows = [[1, 2, 3], [4, 5, 6::int]]\<rparr>)
      [''a'', ''b'', ''c'', ''d'', ''e''] 1 () [] =
     (None, \<lparr>ax = [Clear, Imshow \<lparr>ncols = 2, rows = [[1, 4], [2, 5], [3, 6]]\<rparr> (),
                   Set_title ''c'', Set_aspect ''auto'', Set_ylim [3, 0], Set_xlim [0, 2]],
             frames = replicate 5 \<lparr>ncols = 3, rows = [[1, 2, 3], [4, 5, 6]]\<rparr>, step = 1,
             frame_names = [''a'', ''b'', ''c'', ''d'', ''e''], img_kwargs = (),
             ind = 2, ind_type = PyInt, stdout = []\<rparr>)"
  using init_index_and_render [of "replicate 5 \<lparr>ncols = 3, rows = [[1, 2, 3], [4, 5, 6::int]]\<rparr>" "[]"
      "[''a'', ''b'', ''c'', ''d'', ''e'']" 1 "()" "[]", OF _ surjective_pairing]
  by (simp add: tracker_eval T_def shape_def upt_rec)

text \<open>C9: a redraw clears the axes, shows the transpose of the current frame with the
  keyword arguments of the constructor, sets the title to the label at the current
  index, sets the aspect to \<^verbatim>\<open>'auto'\<close>, the vertical limits to \<open>[shape[1], 0]\<close> and the
  horizontal limits to \<open>[0, shape[0]]\<close> of the frame, in this order: \<open>update\<close> does so for
  every index in range, the constructor does so for the middle frame, and every scroll
  event that assigns an index does so for the frame at the new index (frames non-empty,
  one label per frame). The last conjunct gives the new index where no sum leaves the
  range of \<^verbatim>\<open>numpy.int64\<close>.\<close>

theorem redraw_calls:
  assumes "frames0 \<noteq> []" and "length names0 = length frames0"
  shows
   "let drawn = (\<lambda>s. let img = frames s ! nat (ind s) in
          s\<lparr>ax := ax s @
            [Clear, Imshow (T img) (img_kwargs s), Set_title (frame_names s ! nat (ind s)),
             Set_aspect ''auto'', Set_ylim [int (snd (shape img)), 0],
             Set_xlim [0, int (fst (shape img))]]\<rparr>)
    in (0 \<le> ind s \<and> ind s < int (length (frames s)) \<and> ind s < int (length (frame_names s)) \<longrightarrow>
          update s = (None, drawn s)) \<and>
       IndexTracker_init ax0 frames0 names0 scroll_step kwargs out =
         (None, drawn \<lparr>ax = ax0, frames = frames0, step = scroll_step, frame_names = names0,
                       img_kwargs = kwargs, ind = int (length frames0 div 2),
                       ind_type = PyInt, stdout = out\<rparr>) \<and>
       (frames s = frames0 \<and> frame_names s = names0 \<and>
        fst (onscroll e s) \<noteq> Some OverflowError \<longrightarrow>
          fst (onscroll e s) = None \<and>
          ax (snd (onscroll e s)) = ax s @
            [Clear,
             Imshow (T (frames0 ! nat (ind (snd (onscroll e s))))) (img_kwargs s),
             Set_title (names0 ! nat (ind (snd (onscroll e s)))), Set_aspect ''auto'',
             Set_ylim [int (snd (shape (frames0 ! nat (ind (snd (onscroll e s)))))), 0],
             Set_xlim [0, int (fst (shape (frames0 ! nat (ind (snd (onscroll e s))))))]]) \<and>
       (frames s = frames0 \<and> frame_names s = names0 \<and> ind_type s \<noteq> UInt64 \<and>
        0 \<le> ind s \<and> ind s < int (length frames0) \<and>
        \<bar>step s\<bar> + int (length frames0) \<le> 2 ^ 63 \<longrightarrow>
          onscroll e s =
            (None, drawn (s\<lparr>stdout := stdout s @ [(button e, event_step e)],
               ind := (if button e = ''up''
                       then min (max (ind s + step s) 0) (int (length frames0) - 1)
                       else min (max (ind s - step s) 0) (int (length frames0) - 1)),
               ind_type := Int64\<rparr>)))"
proof -
  have len: "0 < length frames0" using assms(1) by simp
  have mid: "length frames0 div 2 < length frames0" using len by simp
  have r: "0 \<le> clip x 0 (int (length frames0) - 1) \<and>
           clip x 0 (int (length frames0) - 1) < int (length frames0)" for x
    using len by (simp add: clip_def)
  have r': "0 \<le> min (max x 0) (int (length frames0) - 1) \<and>
           min (max x 0) (int (length frames0) - 1) < int (length frames0)" for x
    using len by simp
  have 1: "0 \<le> ind s \<and> ind s < int (length (frames s)) \<and> ind s < int (length (frame_names s)) \<longrightarrow>
      update s = (None, s\<lparr>ax := ax s @
        [Clear, Imshow (T (frames s ! nat (ind s))) (img_kwargs s),
         Set_title (frame_names s ! nat (ind s)), Set_aspect ''auto'',
         Set_ylim [int (snd (shape (frames s ! nat (ind s)))), 0],
         Set_xlim [0, int (fst (shape (frames s ! nat (ind s))))]]\<rparr>)"
    using update_drawn [of s] by simp
  have 2: "IndexTracker_init ax0 frames0 names0 scroll_step kwargs out =
      (None, \<lparr>ax = ax0 @
        [Clear, Imshow (T (frames0 ! (length frames0 div 2))) kwargs,
         Set_title (names0 ! (length frames0 div 2)), Set_aspect ''auto'',
         Set_ylim [int (snd (shape (frames0 ! (length frames0 div 2)))), 0],
         Set_xlim [0, int (fst (shape (frames0 ! (length frames0 div 2))))]],
        frames = frames0, step = scroll_step, frame_names = names0,
        img_kwargs = kwargs, ind = int (length frames0 div 2), ind_type = PyInt,
        stdout = out\<rparr>)"
    unfolding IndexTracker_init_def
    using mid assms(2) by (subst update_drawn) simp_all
  have 3: "fst (onscroll e s) = None \<and>
          ax (snd (onscroll e s)) = ax s @
            [Clear,
             Imshow (T (frames0 ! nat (ind (snd (onscroll e s))))) (img_kwargs s),
             Set_title (names0 ! nat (ind (snd (onscroll e s)))), Set_aspect ''auto'',
             Set_ylim [int (snd (shape (frames0 ! nat (ind (snd (onscroll e s)))))), 0],
             Set_xlim [0, int (fst (shape (frames0 ! nat (ind (snd (onscroll e s))))))]]"
    if "frames s = frames0" "frame_names s = names0" "fst (onscroll e s) \<noteq> Some OverflowError"
  proof -
    from onscroll_cases [of e s] that(3) obtain x t where
      eq: "onscroll e s = update (s\<lparr>stdout := stdout s @ [(button e, event_step e)],
          ind := clip x 0 (int (length (frames s)) - 1), ind_type := t\<rparr>)"
      by auto
    show ?thesis
      unfolding eq using that(1,2) assms(2) r by (subst update_drawn, simp_all)+
  qed
  have 4: "onscroll e s =
      (None, (let s' = s\<lparr>stdout := stdout s @ [(button e, event_step e)],
               ind := (if button e = ''up''
                       then min (max (ind s + step s) 0) (int (length frames0) - 1)
                       else min (max (ind s - step s) 0) (int (length frames0) - 1)),
               ind_type := Int64\<rparr>
         in s'\<lparr>ax := ax s' @
        [Clear, Imshow (T (frames s' ! nat (ind s'))) (img_kwargs s'),
         Set_title (frame_names s' ! nat (ind s')), Set_aspect ''auto'',
         Set_ylim [int (snd (shape (frames s' ! nat (ind s')))), 0],
         Set_xlim [0, int (fst (shape (frames s' ! nat (ind s'))))]]\<rparr>))"
    if "frames s = frames0" "frame_names s = names0" "ind_type s \<noteq> UInt64"
      "0 \<le> ind s" "ind s < int (length frames0)" "\<bar>step s\<bar> + int (length frames0) \<le> 2 ^ 63"
  proof -
    have eq: "onscroll e s =
     update (s\<lparr>stdout := stdout s @ [(button e, event_step e)],
       ind := (if button e = ''up''
               then min (max (ind s + step s) 0) (int (length frames0) - 1)
               else min (max (ind s - step s) 0) (int (length frames0) - 1)),
       ind_type := Int64\<rparr>)"
      using onscroll_exact [of s e] that by simp
    show ?thesis
      unfolding eq Let_def using that(1,2) assms(2) r' by (subst update_drawn) simp_all
  qed
  show ?thesis
    unfolding Let_def using 1 2 3 4 by (simp add: Let_def)
qed

theorem redraw_calls_witness:
  "onscroll (scroll ''up'' 1)
     \<lparr>ax = [], frames = [\<lparr>ncols = 1, rows = [[0]]\<rparr>, \<lparr>ncols = 3, rows = [[1, 2, 3], [4, 5, 6::int]]\<rparr>],
      step = 1, frame_names = [''a'', ''b''], img_kwargs = (), ind = 0, ind_type = PyInt,
      stdout = []\<rparr> =
   (None, \<lparr>ax = [Clear, Imshow \<lparr>ncols = 2, rows = [[1, 4], [2, 5], [3, 6]]\<rparr> (),
                 Set_title ''b'', Set_aspect ''auto'', Set_ylim [3, 0], Set_xlim [0, 2]],
           frames = [\<lparr>ncols = 1, rows = [[0]]\<rparr>, \<lparr>ncols = 3, rows = [[1, 2, 3], [4, 5, 6]]\<rparr>],
           step = 1, frame_names = [''a'', ''b''],
           img_kwargs = (), ind = 1, ind_type = Int64, stdout = [(''up'', 1)]\<rparr>)"
  using redraw_calls [of "[\<lparr>ncols = 1, rows = [[0]]\<rparr>, \<lparr>ncols = 3, rows = [[1, 2, 3], [4, 5, 6::int]]\<rparr>]"
      "[''a'', ''b'']"
      "\<lparr>ax = [], frames = [\<lparr>ncols = 1, rows = [[0]]\<rparr>, \<lparr>ncols = 3, rows = [[1, 2, 3], [4, 5, 6::int]]\<rparr>],
        step = 1, frame_names = [''a'', ''b''], img_kwargs = (), ind = 0, ind_type = PyInt,
        stdout = []\<rparr>"
      "[]" 1 "()" "[]" "scroll ''up'' 1"]
  by (simp add: tracker_eval T_def shape_def upt_rec)

text \<open>C10, as stated: every event whose direction is not \<^verbatim>\<open>'up'\<close> sets the index to
  \<open>clamp (index - step) 0 (N - 1)\<close>. With 5 frames and the step \<open>2 ^ 63 - 1\<close>, an \<^verbatim>\<open>'up'\<close>
  event leaves the index at 4 as a \<^verbatim>\<open>numpy.uint64\<close>, and the \<^verbatim>\<open>'down'\<close> event that follows
  leaves it at 4: the difference wraps to \<open>2 ^ 63 + 5\<close>, where the clamp of the exact
  difference is 0.\<close>

theorem other_direction_counterexample:
  "map (\<lambda>(r, s). (r, ind s, ind_type s))
     (run (snd (IndexTracker_init [] (replicate 5 (zeros 10 10))
                  [''a'', ''b'', ''c'', ''d'', ''e''] (2 ^ 63 - 1) () []))
        [scroll ''up'' 1, scroll ''down'' (- 1)]) =
     [(None, 4, UInt64), (None, 4, UInt64)] \<and>
   min (max (4 - (2 ^ 63 - 1)) 0) (int (length (replicate 5 (zeros 10 10))) - 1) = 0"
  by (simp add: tracker_eval)

text \<open>C10, amended: an event whose direction is anything but \<^verbatim>\<open>'up'\<close> is handled as a
  decrease, exactly as \<^verbatim>\<open>'down'\<close> is: the event is printed, and the handler raises, draws
  and moves the index as for \<^verbatim>\<open>'down'\<close>; no direction is refused or skipped. When
  \<open>\<bar>step\<bar> + N \<le> 2 ^ 63\<close> and the index is a Python \<^verbatim>\<open>int\<close> or a \<^verbatim>\<open>numpy.int64\<close> in
  \<open>[0, N - 1]\<close>, the index becomes \<open>min (max (index - step) 0) (N - 1)\<close>.\<close>

theorem other_direction_decreases:
  assumes "button e \<noteq> ''up''"
  shows "stdout (snd (onscroll e s)) = stdout s @ [(button e, event_step e)] \<and>
     fst (onscroll e s) = fst (onscroll (e\<lparr>button := ''down''\<rparr>) s) \<and>
     ax (snd (onscroll e s)) = ax (snd (onscroll (e\<lparr>button := ''down''\<rparr>) s)) \<and>
     ind (snd (onscroll e s)) = ind (snd (onscroll (e\<lparr>button := ''down''\<rparr>) s)) \<and>
     ind_type (snd (onscroll e s)) = ind_type (snd (onscroll (e\<lparr>button := ''down''\<rparr>) s)) \<and>
     (ind_type s \<noteq> UInt64 \<and> 0 \<le> ind s \<and> ind s < int (length (frames s)) \<and>
      \<bar>step s\<bar> + int (length (frames s)) \<le> 2 ^ 63 \<longrightarrow>
        ind (snd (onscroll e s)) = min (max (ind s - step s) 0) (int (length (frames s)) - 1))"
proof -
  have same: "fst (onscroll e s) = fst (onscroll (e\<lparr>button := ''down''\<rparr>) s) \<and>
     ax (snd (onscroll e s)) = ax (snd (onscroll (e\<lparr>button := ''down''\<rparr>) s)) \<and>
     ind (snd (onscroll e s)) = ind (snd (onscroll (e\<lparr>button := ''down''\<rparr>) s)) \<and>
     ind_type (snd (onscroll e s)) = ind_type (snd (onscroll (e\<lparr>button := ''down''\<rparr>) s))"
    using assms
    by (simp add: onscroll_unfold update_keeps update_def py_getitem_def Let_def
        split: sum.split prod.split)
  have exact: "ind (snd (onscroll e s)) = min (max (ind s - step s) 0) (int (length (frames s)) - 1)"
    if "ind_type s \<noteq> UInt64" "0 \<le> ind s" "ind s < int (length (frames s))"
      "\<bar>step s\<bar> + int (length (frames s)) \<le> 2 ^ 63"
    using assms by (simp add: onscroll_exact [OF that] update_keeps)
  from same exact show ?thesis by (simp add: onscroll_keeps)
qed

theorem other_direction_decreases_witness:
  "ind (snd (onscroll (scroll ''left'' 1)
      \<lparr>ax = [], frames = replicate 5 (zeros 2 3), step = 1,
       frame_names = [''a'', ''b'', ''c'', ''d'', ''e''], img_kwargs = (), ind = 2,
       ind_type = Int64, stdout = []\<rparr>)) = 1 \<and>
   ind (snd (onscroll (scroll ''Up'' 1)
      \<lparr>ax = [], frames = replicate 5 (zeros 2 3), step = 10,
       frame_names = [''a'', ''b'', ''c'', ''d'', ''e''], img_kwargs = (), ind = 2,
       ind_type = PyInt, stdout = []\<rparr>)) = 0 \<and>
   ind (snd (onscroll (scroll [] 1)
      \<lparr>ax = [], frames = replicate 5 (zeros 2 3), step = - 10,
       frame_names = [''a'', ''b'', ''c'', ''d'', ''e''], img_kwargs = (), ind = 2,
       ind_type = Int64, stdout = []\<rparr>)) = 4"
  using other_direction_decreases [of "scroll ''left'' 1"
      "\<lparr>ax = [], frames = replicate 5 (zeros 2 3), step = 1,
       frame_names = [''a'', ''b'', ''c'', ''d'', ''e''], img_kwargs = (), ind = 2,
       ind_type = Int64, stdout = []\<rparr>"]
    other_direction_decreases [of "scroll ''Up'' 1"
      "\<lparr>ax = [], frames = replicate 5 (zeros 2 3), step = 10,
       frame_names = [''a'', ''b'', ''c'', ''d'', ''e''], img_kwargs = (), ind = 2,
       ind_type = PyInt, stdout = []\<rparr>"]
    other_direction_decreases [of "scroll [] 1"
      "\<lparr>ax = [], frames = replicate 5 (zeros 2 3), step = - 10,
       frame_names = [''a'', ''b'', ''c'', ''d'', ''e''], img_kwargs = (), ind = 2,
       ind_type = Int64, stdout = []\<rparr>"]
  by (simp add: tracker_eval)

text \<open>C3, as stated: the handler applies the step carried by each event, so that with
  5 frames and the index at 2, \<^verbatim>\<open>'up'\<close> with step 1 gives 3, \<^verbatim>\<open>'up'\<close> with step 10 gives
  4 and \<^verbatim>\<open>'down'\<close> with step 10 gives 0. On the code the last event gives 3: the
  handler moves the index by the step of the constructor (here the default, 1).\<close>

theorem per_event_step_counterexample:
  "ind (snd (IndexTracker_init [] (replicate 5 (zeros 10 10))
               [''a'', ''b'', ''c'', ''d'', ''e''] 1 () [])) = 2 \<and>
   map (\<lambda>(r, s). ind s)
     (run (snd (IndexTracker_init [] (replicate 5 (zeros 10 10))
                  [''a'', ''b'', ''c'', ''d'', ''e''] 1 () []))
        [scroll ''up'' 1, scroll ''up'' 10, scroll ''down'' 10]) = [3, 4, 3] \<and>
   map (\<lambda>(r, s). ind s)
     (run (snd (IndexTracker_init [] (replicate 5 (zeros 10 10))
                  [''a'', ''b'', ''c'', ''d'', ''e''] 1 () []))
        [scroll ''up'' 1, scroll ''up'' 10, scroll ''down'' 10]) \<noteq> [3, 4, 0]"
  by (simp add: tracker_eval)

text \<open>C3, amended: the handler reads the direction and the step of each event, but the
  event's step is only printed. Two events of the same direction raise, draw and move
  the index alike whatever their steps: the index moves by the step the scroller was
  constructed with, which no event changes; where no sum leaves the range of
  \<^verbatim>\<open>numpy.int64\<close> (\<open>\<bar>step\<bar> + N \<le> 2 ^ 63\<close>) it becomes \<open>min (max (index + step) 0) (N - 1)\<close> on
  \<^verbatim>\<open>'up'\<close> and \<open>min (max (index - step) 0) (N - 1)\<close> otherwise.\<close>

theorem event_step_only_printed:
  assumes "button e' = button e"
  shows "fst (onscroll e' s) = fst (onscroll e s) \<and>
     ind (snd (onscroll e' s)) = ind (snd (onscroll e s)) \<and>
     ind_type (snd (onscroll e' s)) = ind_type (snd (onscroll e s)) \<and>
     ax (snd (onscroll e' s)) = ax (snd (onscroll e s)) \<and>
     step (snd (onscroll e s)) = step s \<and>
     stdout (snd (onscroll e s)) = stdout s @ [(button e, event_step e)] \<and>
     (ind_type s \<noteq> UInt64 \<and> 0 \<le> ind s \<and> ind s < int (length (frames s)) \<and>
      \<bar>step s\<bar> + int (length (frames s)) \<le> 2 ^ 63 \<longrightarrow>
        ind (snd (onscroll e s)) =
          (if button e = ''up'' then min (max (ind s + step s) 0) (int (length (frames s)) - 1)
           else min (max (ind s - step s) 0) (int (length (frames s)) - 1)))"
proof -
  have same: "fst (onscroll e' s) = fst (onscroll e s) \<and>
     ind (snd (onscroll e' s)) = ind (snd (onscroll e s)) \<and>
     ind_type (snd (onscroll e' s)) = ind_type (snd (onscroll e s)) \<and>
     ax (snd (onscroll e' s)) = ax (snd (onscroll e s))"
    using assms
    by (simp add: onscroll_unfold update_keeps update_def py_getitem_def Let_def
        split: sum.split prod.split)
  have exact: "ind (snd (onscroll e s)) =
          (if button e = ''up'' then min (max (ind s + step s) 0) (int (length (frames s)) - 1)
           else min (max (ind s - step s) 0) (int (length (frames s)) - 1))"
    if "ind_type s \<noteq> UInt64" "0 \<le> ind s" "ind s < int (length (frames s))"
      "\<bar>step s\<bar> + int (length (frames s)) \<le> 2 ^ 63"
    by (simp add: onscroll_exact [OF that] update_keeps)
  from same exact show ?thesis by (simp add: onscroll_keeps)
qed

theorem event_step_only_printed_witness:
  "map (\<lambda>(r, s). ind s)
     (run (snd (IndexTracker_init [] (replicate 5 (zeros 10 10))
                  [''a'', ''b'', ''c'', ''d'', ''e''] 1 () []))
        [scroll ''up'' 1, scroll ''up'' 10, scroll ''down'' 10]) = [3, 4, 3] \<and>
   ind (snd (onscroll (scroll ''up'' 10)
      \<lparr>ax = [], frames = replicate 5 (zeros 10 10), step = 1,
       frame_names = [''a'', ''b'', ''c'', ''d'', ''e''], img_kwargs = (), ind = 2,
       ind_type = PyInt, stdout = []\<rparr>)) =
   ind (snd (onscroll (scroll ''up'' 1)
      \<lparr>ax = [], frames = replicate 5 (zeros 10 10), step = 1,
       frame_names = [''a'', ''b'', ''c'', ''d'', ''e''], img_kwargs = (), ind = 2,
       ind_type = PyInt, stdout = []\<rparr>)) \<and>
   ind (snd (onscroll (scroll ''down'' 1)
      \<lparr>ax = [], frames = replicate 5 (zeros 10 10), step = 7,
       frame_names = [''a'', ''b'', ''c'', ''d'', ''e''], img_kwargs = (), ind = 2,
       ind_type = Int64, stdout = []\<rparr>)) = 0 \<and>
   ind (snd (onscroll (scroll ''up'' 1)
      \<lparr>ax = [], frames = replicate 5 (zeros 10 10), step = 7,
       frame_names = [''a'', ''b'', ''c'', ''d'', ''e''], img_kwargs = (), ind = 2,
       ind_type = Int64, stdout = []\<rparr>)) = 4"
  using event_step_only_printed [of "scroll ''up'' 10" "scroll ''up'' 1"
      "\<lparr>ax = [], frames = replicate 5 (zeros 10 10), step = 1,
       frame_names = [''a'', ''b'', ''c'', ''d'', ''e''], img_kwargs = (), ind = 2,
       ind_type = PyInt, stdout = []\<rparr>"]
  by (simp add: tracker_eval)

text \<open>C6, as stated: an increase followed by a decrease returns to the index \<open>i\<close>
  whenever \<open>i + s \<le> N - 1\<close>, for every step \<open>s\<close>, and at \<open>i = N - 1\<close> with step 1 it yields
  \<open>N - 2\<close>, not \<open>N - 1\<close>. With a single frame (\<open>N = 1\<close>) it yields \<open>0 = N - 1\<close>; and with 5
  frames, index 2 and step \<open>- 3\<close> it yields 3.\<close>

theorem increase_decrease_counterexample:
  "ind (snd (IndexTracker_init [] [zeros 10 10] [''a''] 1 () [])) =
     int (length [zeros 10 10]) - 1 \<and>
   ind (snd (onscroll (scroll ''down'' (- 1)) (snd (onscroll (scroll ''up'' 1)
     (snd (IndexTracker_init [] [zeros 10 10] [''a''] 1 () [])))))) =
     int (length [zeros 10 10]) - 1 \<and>
   ind (snd (onscroll (scroll ''down'' (- 1)) (snd (onscroll (scroll ''up'' 1)
     (snd (IndexTracker_init [] [zeros 10 10] [''a''] 1 () [])))))) \<noteq>
     int (length [zeros 10 10]) - 2 \<and>
   ind (snd (IndexTracker_init [] (replicate 5 (zeros 10 10))
               [''a'', ''b'', ''c'', ''d'', ''e''] (- 3) () [])) + (- 3) \<le>
     int (length (replicate 5 (zeros 10 10))) - 1 \<and>
   ind (snd (onscroll (scroll ''down'' (- 1)) (snd (onscroll (scroll ''up'' 1)
     (snd (IndexTracker_init [] (replicate 5 (zeros 10 10))
             [''a'', ''b'', ''c'', ''d'', ''e''] (- 3) () [])))))) \<noteq>
   ind (snd (IndexTracker_init [] (replicate 5 (zeros 10 10))
               [''a'', ''b'', ''c'', ''d'', ''e''] (- 3) () []))"
  by (simp add: tracker_eval)

text \<open>C6, amended: from an index \<open>i\<close> in \<open>[0, N - 1]\<close>, an increase followed by a decrease
  returns to \<open>i\<close> whenever the step \<open>s\<close> is not negative and \<open>i + s \<le> N - 1\<close>; with at least
  two frames, at \<open>i = N - 1\<close> with step 1 it yields \<open>N - 2\<close>. The number of frames is below
  \<open>2 ^ 63\<close>, as the length of every Python sequence is, so that no sum wraps.\<close>

theorem increase_then_decrease:
  assumes "button up = ''up''" and "button down \<noteq> ''up''"
    and "0 \<le> ind s" and "ind s \<le> int (length (frames s)) - 1"
    and "int (length (frames s)) < 2 ^ 63"
  shows "(0 \<le> step s \<and> ind s + step s \<le> int (length (frames s)) - 1 \<longrightarrow>
            ind (snd (onscroll down (snd (onscroll up s)))) = ind s) \<and>
         (2 \<le> length (frames s) \<and> ind s = int (length (frames s)) - 1 \<and> step s = 1 \<longrightarrow>
            ind (snd (onscroll down (snd (onscroll up s)))) = int (length (frames s)) - 2)"
proof -
  let ?N = "int (length (frames s))"
  let ?s = "snd (onscroll up s)"
  have ne: "frames s \<noteq> []" using assms(3,4) by auto
  have keep: "frames ?s = frames s" "step ?s = step s" by (simp_all add: onscroll_keeps)
  have 1: "ind (snd (onscroll down ?s)) = ind s"
    if "0 \<le> step s" "ind s + step s \<le> ?N - 1"
  proof -
    have k: "step s < 2 ^ 63" using that assms(3,5) by simp
    have "onscroll up s = update (s\<lparr>stdout := stdout s @ [(button up, event_step up)],
        ind := min (max (ind s + step s) 0) (?N - 1),
        ind_type := clip_type (ind_type s) (ind s + step s)\<rparr>)"
      using onscroll_nonneg [OF ne that(1) k, of "ind s + step s" up] assms(1,3,5) that by simp
    then have up: "ind ?s = ind s + step s"
      using that assms(3) by (simp add: update_keeps)
    have "onscroll down ?s = update (?s\<lparr>stdout := stdout ?s @ [(button down, event_step down)],
        ind := min (max (ind ?s - step ?s) 0) (int (length (frames ?s)) - 1),
        ind_type := clip_type (ind_type ?s) (ind ?s - step ?s)\<rparr>)"
      using onscroll_nonneg [of ?s "ind ?s - step ?s" down] ne keep that(1) k assms(2,3,4,5) up
      by simp
    then show ?thesis
      using up keep assms(3,4) by (simp add: update_keeps)
  qed
  have 2: "ind (snd (onscroll down ?s)) = ?N - 2"
    if "2 \<le> length (frames s)" "ind s = ?N - 1" "step s = 1"
  proof -
    have "onscroll up s = update (s\<lparr>stdout := stdout s @ [(button up, event_step up)],
        ind := min (max (ind s + step s) 0) (?N - 1),
        ind_type := clip_type (ind_type s) (ind s + step s)\<rparr>)"
      using onscroll_nonneg [OF ne, of "ind s + step s" up] assms(1,3,5) that by simp
    then have up: "ind ?s = ?N - 1"
      using that by (simp add: update_keeps)
    have "onscroll down ?s = update (?s\<lparr>stdout := stdout ?s @ [(button down, event_step down)],
        ind := min (max (ind ?s - step ?s) 0) (int (length (frames ?s)) - 1),
        ind_type := clip_type (ind_type ?s) (ind ?s - step ?s)\<rparr>)"
      using onscroll_nonneg [of ?s "ind ?s - step ?s" down] ne keep that assms(2,5) up
      by simp
    then show ?thesis
      using up keep that by (simp add: update_keeps)
  qed
  from 1 2 show ?thesis by blast
qed

theorem increase_then_decrease_witness:
  "ind (snd (onscroll (scroll ''down'' (- 1)) (snd (onscroll (scroll ''up'' 1)
      \<lparr>ax = [], frames = replicate 5 (zeros 2 3), step = 2,
       frame_names = [''a'', ''b'', ''c'', ''d'', ''e''], img_kwargs = (), ind = 2,
       ind_type = PyInt, stdout = []\<rparr>)))) = 2 \<and>
   ind (snd (onscroll (scroll ''down'' (- 1)) (snd (onscroll (scroll ''up'' 1)
      \<lparr>ax = [], frames = replicate 5 (zeros 2 3), step = 1,
       frame_names = [''a'', ''b'', ''c'', ''d'', ''e''], img_kwargs = (), ind = 4,
       ind_type = Int64, stdout = []\<rparr>)))) = 3"
  using increase_then_decrease [of "scroll ''up'' 1" "scroll ''down'' (- 1)"
      "\<lparr>ax = [], frames = replicate 5 (zeros 2 3), step = 2,
       frame_names = [''a'', ''b'', ''c'', ''d'', ''e''], img_kwargs = (), ind = 2,
       ind_type = PyInt, stdout = []\<rparr>"]
    increase_then_decrease [of "scroll ''up'' 1" "scroll ''down'' (- 1)"
      "\<lparr>ax = [], frames = replicate 5 (zeros 2 3), step = 1,
       frame_names = [''a'', ''b'', ''c'', ''d'', ''e''], img_kwargs = (), ind = 4,
       ind_type = Int64, stdout = []\<rparr>"]
  by (simp add: scroll_def)

subsection \<open>\<^verbatim>\<open>seismic_plot\<close>\<close>

lemma seismic_loop_no_savefig:
  "Savefig p \<notin> set fig \<Longrightarrow> Savefig p \<notin> set (snd (seismic_loop names kwargs xs fig))"
proof (induction xs arbitrary: fig)
  case Nil
  then show ?case by simp
next
  case (Cons x xs)
  obtain i el where x: "x = (i, el)" by (cases x)
  show ?case
  proof (cases el)
    case (Array2 arr)
    show ?thesis
    proof (cases names)
      case None
      with Cons x Array2 show ?thesis by (simp add: imshow_T_def)
    next
      case (Some ns)
      show ?thesis
      proof (cases "py_getitem ns (int i)")
        case (Inl e)
        with Cons.prems x Some Array2 show ?thesis by (simp add: imshow_T_def)
      next
        case (Inr name)
        with Cons x Some Array2 show ?thesis by (simp add: imshow_T_def)
      qed
    qed
  next
    case (Array1 r)
    with Cons.prems x show ?thesis by (simp add: imshow_T_def)
  next
    case (Nested as)
    with Cons.prems x show ?thesis by (simp add: imshow_T_def)
  qed
qed

text \<open>C7: for a 2-D array \<open>a\<close> and any other arguments, \<^verbatim>\<open>seismic_plot\<close> called with \<open>a\<close>
  does exactly what it does when called with the one-element sequence \<open>(a,)\<close>: the same
  exception or none, and the same calls in the same order, which are one row of one
  subplot showing the transpose of \<open>a\<close>, titled when a name is given. The array has
  \<^verbatim>\<open>ndim\<close> 2 and is wrapped; the sequence has \<^verbatim>\<open>ndim\<close> 3 and is iterated.\<close>

theorem bare_array_as_singleton:
  "seismic_plot (Single a) names figsize save_to kwargs =
     seismic_plot (Seq [a]) names figsize save_to kwargs \<and>
   seismic_plot (Single a) names figsize save_to kwargs =
     (case map_option names_sequence names of
        None \<Rightarrow>
          (None, [Subplots 1 1 figsize, Ax 0 0 (Imshow (T a) kwargs),
                  Ax 0 0 (Set_aspect ''auto''), Show])
      | Some [] \<Rightarrow>
          (Some IndexError, [Subplots 1 1 figsize, Ax 0 0 (Imshow (T a) kwargs)])
      | Some (name # rest) \<Rightarrow>
          (None, [Subplots 1 1 figsize, Ax 0 0 (Imshow (T a) kwargs),
                  Ax 0 0 (Set_title name), Ax 0 0 (Set_aspect ''auto''), Show]))"
  by (simp add: seismic_plot_def elements_def imshow_T_def subplots_def py_getitem_def
      enumerate_eq_zip split: option.splits list.splits)

theorem bare_array_as_singleton_witness:
  "seismic_plot (Single \<lparr>ncols = 3, rows = [[1, 2, 3], [4, 5, 6::int]]\<rparr>) (Some (Name ''shot''))
     (None :: unit option) None () =
   seismic_plot (Seq [\<lparr>ncols = 3, rows = [[1, 2, 3], [4, 5, 6::int]]\<rparr>]) (Some (Name ''shot''))
     (None :: unit option) None () \<and>
   seismic_plot (Seq [\<lparr>ncols = 3, rows = [[1, 2, 3], [4, 5, 6::int]]\<rparr>]) (Some (Name ''shot''))
     (None :: unit option) None () =
   (None, [Subplots 1 1 None, Ax 0 0 (Imshow \<lparr>ncols = 2, rows = [[1, 4], [2, 5], [3, 6]]\<rparr> ()),
           Ax 0 0 (Set_title ''shot''), Ax 0 0 (Set_aspect ''auto''), Show])"
  using bare_array_as_singleton [of "\<lparr>ncols = 3, rows = [[1, 2, 3], [4, 5, 6::int]]\<rparr>"
      "Some (Name ''shot'')" "None :: unit option" None "()"]
  by (simp add: seismic_plot_def elements_def imshow_T_def subplots_def py_getitem_def
      enumerate_eq_zip T_def upt_rec)

text \<open>C8: \<^verbatim>\<open>seismic_plot\<close> never saves: whatever \<^verbatim>\<open>save_to\<close> is, the result is the one for
  \<^verbatim>\<open>save_to=None\<close>, and no call of \<^verbatim>\<open>savefig\<close> is among the calls made.\<close>

theorem save_to_ignored:
  "seismic_plot arrs names figsize save_to kwargs = seismic_plot arrs names figsize None kwargs \<and>
   (\<forall>path. Savefig path \<notin> set (snd (seismic_plot arrs names figsize save_to kwargs)))"
proof -
  have "Savefig path \<notin> set (snd (seismic_plot arrs names figsize save_to kwargs))" for path
  proof (cases "asarray_ndim arrs")
    case (Inl e)
    then show ?thesis by (simp add: seismic_plot_def)
  next
    case (Inr d)
    show ?thesis
    proof (cases "elements d arrs = []")
      case True
      with Inr show ?thesis by (simp add: seismic_plot_def subplots_def)
    next
      case False
      have "Savefig path \<notin> set [Subplots 1 (length (elements d arrs)) figsize]"
        by simp
      from seismic_loop_no_savefig [OF this, of "map_option names_sequence names" kwargs
          "enumerate 0 (elements d arrs)"] False Inr
      show ?thesis
        by (cases "seismic_loop (map_option names_sequence names) kwargs
              (enumerate 0 (elements d arrs))
              [Subplots 1 (length (elements d arrs)) figsize]")
          (auto simp add: seismic_plot_def subplots_def Let_def split: option.splits)
    qed
  qed
  then show ?thesis by (simp add: seismic_plot_def)
qed

theorem save_to_ignored_witness:
  "seismic_plot (Seq [zeros 1 2, zeros 1 2 :: int ndarray]) (Some (Names [''a'', ''b'']))
     (None :: unit option) (Some ''plot.png'') () =
   (None, [Subplots 1 2 None, Ax 0 0 (Imshow \<lparr>ncols = 1, rows = [[0], [0]]\<rparr> ()),
           Ax 0 0 (Set_title ''a''), Ax 0 0 (Set_aspect ''auto''),
           Ax 0 1 (Imshow \<lparr>ncols = 1, rows = [[0], [0]]\<rparr> ()),
           Ax 0 1 (Set_title ''b''), Ax 0 1 (Set_aspect ''auto''), Show])"
  using save_to_ignored [of "Seq [zeros 1 2, zeros 1 2 :: int ndarray]" "Some (Names [''a'', ''b''])"
      "None :: unit option" "Some ''plot.png''" "()"]
  by (simp add: seismic_plot_def elements_def imshow_T_def subplots_def py_getitem_def
      enumerate_eq_zip zeros_def T_def shape_def upt_rec)

subsection \<open>\<^verbatim>\<open>spectrum_plot\<close>\<close>

lemma getitem_mask_self:
  "getitem_mask fs (map P fs) = Inr (filter P fs)"
proof -
  have "map fst (filter snd (zip fs (map P fs))) = filter P fs"
    by (induction fs) simp_all
  then show ?thesis by (simp add: getitem_mask_def)
qed

lemma getitem_mask_along:
  assumes "length ps = length fs"
  shows "getitem_mask ps (map P fs) = Inr (map fst (filter (\<lambda>(p, f). P f) (zip ps fs)))"
proof -
  from assms have "map fst (filter snd (zip ps (map P fs))) =
      map fst (filter (\<lambda>(p, f). P f) (zip ps fs))"
    by (induction ps fs rule: list_induct2) simp_all
  with assms show ?thesis by (simp add: getitem_mask_def)
qed

lemma block_row_length:
  "r \<in> set (rows (getitem_frame arr frame)) \<Longrightarrow> length r = ncols (getitem_frame arr frame)"
  by (auto simp add: getitem_frame_def Let_def)

lemma plot_args_given:
  assumes "rows (getitem_frame arr frame) \<noteq> []" and "0 < ncols (getitem_frame arr frame)"
    and "\<not> zero_division np (ncols (getitem_frame arr frame)) d"
  shows "plot_args np (Some d) frame (Some mf) arr =
     (let block = getitem_frame arr frame; n = ncols block;
          freqs = map (bin_freq np n d) [0..<n div 2 + 1];
          means = map (\<lambda>k. column_mean np (map (\<lambda>x. bin_power np x k) (rows block)))
                    [0..<n div 2 + 1]
      in Inr (filter (\<lambda>f. float_le np f mf) freqs,
              map fst (filter (\<lambda>(p, f). float_le np f mf) (zip means freqs))))"
proof -
  let ?block = "getitem_frame arr frame"
  let ?n = "ncols ?block"
  define freqs where "freqs = map (bin_freq np ?n d) [0..<?n div 2 + 1]"
  define means where "means =
      map (\<lambda>k. column_mean np (map (\<lambda>x. bin_power np x k) (rows ?block))) [0..<?n div 2 + 1]"
  obtain row0 rest where rows: "rows ?block = row0 # rest"
    using assms(1) by (cases "rows ?block") simp_all
  have row0: "length row0 = ?n"
    using block_row_length [of row0 arr frame] rows by simp
  have spec: "power_spectrum np ?block =
      Inr \<lparr>ncols = ?n div 2 + 1,
           rows = map (\<lambda>x. map (bin_power np x) [0..<length x div 2 + 1]) (rows ?block)\<rparr>"
    using assms(2) by (simp add: power_spectrum_def)
  have get0: "py_getitem (rows ?block) 0 = Inr row0"
    using rows by (simp add: py_getitem_def)
  have freqs: "rfftfreq np (length row0) d = Inr freqs"
    unfolding row0 freqs_def using assms(3) by (simp add: rfftfreq_def)
  have means: "mean_axis0 np \<lparr>ncols = ?n div 2 + 1,
           rows = map (\<lambda>x. map (bin_power np x) [0..<length x div 2 + 1]) (rows ?block)\<rparr> = means"
  proof -
    have "k < ?n div 2 + 1 \<Longrightarrow> x \<in> set (rows ?block) \<Longrightarrow>
        map (bin_power np x) [0..<length x div 2 + 1] ! k = bin_power np x k" for k x
      using block_row_length [of x arr frame] nth_map [of k "[0..<length x div 2 + 1]"]
      by (simp del: upt_Suc)
    then show ?thesis
      unfolding means_def
      by (auto simp add: mean_axis0_def o_def simp del: upt_Suc
          intro!: arg_cong [where f = "column_mean np"])
  qed
  have len: "length means = length freqs"
    by (simp add: means_def freqs_def)
  have "plot_args np (Some d) frame (Some mf) arr =
      Inr (filter (\<lambda>f. float_le np f mf) freqs,
           map fst (filter (\<lambda>(p, f). float_le np f mf) (zip means freqs)))"
    by (simp only: plot_args_def spec get0 freqs means getitem_mask_self
        getitem_mask_along [OF len] sum.case option.case Let_def)
  then show ?thesis
    unfolding Let_def freqs_def means_def .
qed

lemma plot_args_unbound:
  assumes "rows (getitem_frame arr frame) \<noteq> []" and "0 < ncols (getitem_frame arr frame)"
  shows "plot_args np None frame max_freq arr = Inl NameError"
  using assms
  by (cases "rows (getitem_frame arr frame)")
     (simp_all add: plot_args_def power_spectrum_def py_getitem_def)

lemma plot_args_unbound_raises: "\<exists>e. plot_args np None frame max_freq arr = Inl e"
  by (simp add: plot_args_def split: sum.splits option.splits)

lemma plot_args_without_max_freq: "\<exists>e. plot_args np timestep frame None arr = Inl e"
  by (simp add: plot_args_def split: sum.splits option.splits)

lemma spectrum_plot_single:
  assumes "plot_args np timestep frame max_freq arr = Inr (xs, ys)"
  shows "spectrum_plot np timestep frame (Single arr) rate max_freq None figsize save_to kwargs =
     (None,
      [Subplots 2 1 figsize, Ax 0 0 (Imshow (T arr) kwargs),
       Ax 0 0 (Add_patch (Rectangle (start (fst frame), start (snd frame))
                 (stop (fst frame) - start (fst frame))
                 (stop (snd frame) - start (snd frame)) ''r'' ''none'' 2)),
       Ax 0 0 (Set_title ''Seismogram ''), Ax 0 0 (Set_aspect ''auto''),
       Ax 1 0 (Plot xs ys 2), Ax 1 0 (Set_xlabel ''Hz''),
       Ax 1 0 (Set_title ''Spectrum plot ''), Ax 1 0 (Set_aspect ''auto'')] @
      (case save_to of None \<Rightarrow> [] | Some path \<Rightarrow> [Savefig path]) @ [Show])"
  using assms
  by (simp add: spectrum_plot_def elements_def imshow_T_def subplots_def name_or_empty_def
      enumerate_eq_zip Let_def)

lemma spectrum_plot_single_raises:
  assumes "plot_args np timestep frame max_freq arr = Inl e"
  shows "spectrum_plot np timestep frame (Single arr) rate max_freq None figsize save_to kwargs =
     (Some e,
      [Subplots 2 1 figsize, Ax 0 0 (Imshow (T arr) kwargs),
       Ax 0 0 (Add_patch (Rectangle (start (fst frame), start (snd frame))
                 (stop (fst frame) - start (fst frame))
                 (stop (snd frame) - start (snd frame)) ''r'' ''none'' 2)),
       Ax 0 0 (Set_title ''Seismogram ''), Ax 0 0 (Set_aspect ''auto'')])"
  using assms
  by (simp add: spectrum_plot_def elements_def imshow_T_def subplots_def name_or_empty_def
      enumerate_eq_zip Let_def)

lemma spectrum_loop_raises:
  assumes "\<And>arr. \<exists>e. plot_args np timestep frame max_freq arr = Inl e" and "els \<noteq> []"
  shows "\<exists>e calls. spectrum_loop np timestep frame max_freq names kwargs els fig =
           (Some e, fig @ calls) \<and>
         (\<forall>r c xs ys lw. Ax r c (Plot xs ys lw) \<notin> set calls)"
proof -
  obtain i el rest where els: "els = (i, el) # rest"
    using assms(2) by (cases els) auto
  show ?thesis
  proof (cases el)
    case (Array2 arr)
    from assms(1) obtain e where e: "plot_args np timestep frame max_freq arr = Inl e"
      by blast
    show ?thesis
    proof (cases "name_or_empty names i")
      case (Inl e')
      with els Array2 show ?thesis by (simp add: imshow_T_def Let_def)
    next
      case (Inr name)
      with els Array2 e show ?thesis by (simp add: imshow_T_def Let_def)
    qed
  next
    case (Array1 r)
    with els show ?thesis by (simp add: imshow_T_def)
  next
    case (Nested as)
    with els show ?thesis by (simp add: imshow_T_def)
  qed
qed

lemma spectrum_plot_raises:
  assumes "\<And>arr. \<exists>e. plot_args np timestep frame max_freq arr = Inl e"
  shows "fst (spectrum_plot np timestep frame arrs rate max_freq names figsize save_to kwargs)
           \<noteq> None \<and>
         (\<forall>r c xs ys lw. Ax r c (Plot xs ys lw) \<notin>
            set (snd (spectrum_plot np timestep frame arrs rate max_freq names figsize save_to
                        kwargs)))"
proof (cases "asarray_ndim arrs")
  case (Inl e)
  then show ?thesis by (simp add: spectrum_plot_def)
next
  case (Inr d)
  show ?thesis
  proof (cases "elements d arrs = []")
    case True
    with Inr show ?thesis by (simp add: spectrum_plot_def subplots_def)
  next
    case False
    then have "enumerate 0 (elements d arrs) \<noteq> []" by (simp add: enumerate_eq_zip)
    from spectrum_loop_raises [OF assms this, of "map_option names_sequence names" kwargs
        "[Subplots 2 (length (elements d arrs)) figsize]"]
    obtain e calls where
      "spectrum_loop np timestep frame max_freq (map_option names_sequence names) kwargs
         (enumerate 0 (elements d arrs)) [Subplots 2 (length (elements d arrs)) figsize] =
       (Some e, [Subplots 2 (length (elements d arrs)) figsize] @ calls)"
      and "\<forall>r c xs ys lw. Ax r c (Plot xs ys lw) \<notin> set calls"
      by blast
    with Inr False show ?thesis by (simp add: spectrum_plot_def subplots_def)
  qed
qed

text \<open>C2: \<^verbatim>\<open>spectrum_plot\<close> never reads \<^verbatim>\<open>rate\<close>: two calls that differ only in \<^verbatim>\<open>rate\<close>
  give the same result. The sampling interval is the global \<^verbatim>\<open>timestep\<close>: for a
  non-empty region of interest, a call raises \<^verbatim>\<open>NameError\<close> while the name is unbound,
  and once it is bound to a \<open>d\<close> that \<^verbatim>\<open>rfftfreq\<close> accepts, the frequencies plotted are those
  of the bins of \<^verbatim>\<open>rfftfreq(n, d)\<close> that do not exceed \<^verbatim>\<open>max_freq\<close>.\<close>

theorem rate_not_used:
  "spectrum_plot np timestep frame arrs rate max_freq names figsize save_to kwargs =
     spectrum_plot np timestep frame arrs rate' max_freq names figsize save_to kwargs \<and>
   (rows (getitem_frame arr frame) \<noteq> [] \<and> 0 < ncols (getitem_frame arr frame) \<longrightarrow>
      fst (spectrum_plot np None frame (Single arr) rate max_freq None figsize save_to kwargs) =
        Some NameError \<and>
      (\<not> zero_division np (ncols (getitem_frame arr frame)) d \<longrightarrow>
         (let n = ncols (getitem_frame arr frame);
              freqs = map (bin_freq np n d) [0..<n div 2 + 1]
          in \<exists>ys. spectrum_plot np (Some d) frame (Single arr) rate (Some mf) None figsize None
                     kwargs =
               (None,
                [Subplots 2 1 figsize, Ax 0 0 (Imshow (T arr) kwargs),
                 Ax 0 0 (Add_patch (Rectangle (start (fst frame), start (snd frame))
                           (stop (fst frame) - start (fst frame))
                           (stop (snd frame) - start (snd frame)) ''r'' ''none'' 2)),
                 Ax 0 0 (Set_title ''Seismogram ''), Ax 0 0 (Set_aspect ''auto''),
                 Ax 1 0 (Plot (filter (\<lambda>f. float_le np f mf) freqs) ys 2),
                 Ax 1 0 (Set_xlabel ''Hz''),
                 Ax 1 0 (Set_title ''Spectrum plot ''), Ax 1 0 (Set_aspect ''auto''), Show]))))"
proof -
  have 1: "spectrum_plot np timestep frame arrs rate max_freq names figsize save_to kwargs =
     spectrum_plot np timestep frame arrs rate' max_freq names figsize save_to kwargs"
    by (simp add: spectrum_plot_def)
  have 2: "fst (spectrum_plot np None frame (Single arr) rate max_freq None figsize save_to kwargs) =
        Some NameError"
    if "rows (getitem_frame arr frame) \<noteq> []" "0 < ncols (getitem_frame arr frame)"
    by (simp add: spectrum_plot_single_raises [OF plot_args_unbound [OF that]])
  have 3: "let n = ncols (getitem_frame arr frame);
              freqs = map (bin_freq np n d) [0..<n div 2 + 1]
          in \<exists>ys. spectrum_plot np (Some d) frame (Single arr) rate (Some mf) None figsize None
                     kwargs =
               (None,
                [Subplots 2 1 figsize, Ax 0 0 (Imshow (T arr) kwargs),
                 Ax 0 0 (Add_patch (Rectangle (start (fst frame), start (snd frame))
                           (stop (fst frame) - start (fst frame))
                           (stop (snd frame) - start (snd frame)) ''r'' ''none'' 2)),
                 Ax 0 0 (Set_title ''Seismogram ''), Ax 0 0 (Set_aspect ''auto''),
                 Ax 1 0 (Plot (filter (\<lambda>f. float_le np f mf) freqs) ys 2),
                 Ax 1 0 (Set_xlabel ''Hz''),
                 Ax 1 0 (Set_title ''Spectrum plot ''), Ax 1 0 (Set_aspect ''auto''), Show])"
    if "rows (getitem_frame arr frame) \<noteq> []" "0 < ncols (getitem_frame arr frame)"
      "\<not> zero_division np (ncols (getitem_frame arr frame)) d"
    using spectrum_plot_single [OF plot_args_given [OF that, of mf, unfolded Let_def],
        of rate figsize None kwargs]
    unfolding Let_def by (intro exI) simp
  from 1 2 3 show ?thesis by blast
qed

theorem rate_not_used_witness:
  "\<forall>np x y mf.
     spectrum_plot np None (\<lparr>start = 0, stop = 1\<rparr>, \<lparr>start = 0, stop = 2\<rparr>)
       (Single \<lparr>ncols = 2, rows = [[x, y]]\<rparr>) (500 :: int) (Some mf) None (None :: unit option)
       None () =
     spectrum_plot np None (\<lparr>start = 0, stop = 1\<rparr>, \<lparr>start = 0, stop = 2\<rparr>)
       (Single \<lparr>ncols = 2, rows = [[x, y]]\<rparr>) 250 (Some mf) None (None :: unit option)
       None () \<and>
     spectrum_plot np None (\<lparr>start = 0, stop = 1\<rparr>, \<lparr>start = 0, stop = 2\<rparr>)
       (Single \<lparr>ncols = 2, rows = [[x, y]]\<rparr>) (500 :: int) (Some mf) None (None :: unit option)
       None () =
     (Some NameError,
      [Subplots 2 1 None, Ax 0 0 (Imshow \<lparr>ncols = 1, rows = [[x], [y]]\<rparr> ()),
       Ax 0 0 (Add_patch (Rectangle (0, 0) 1 2 ''r'' ''none'' 2)),
       Ax 0 0 (Set_title ''Seismogram ''), Ax 0 0 (Set_aspect ''auto'')])"
proof (intro allI conjI)
  fix np :: "'a numpy" and x y mf :: 'a
  let ?frame = "(\<lparr>start = 0, stop = 1\<rparr>, \<lparr>start = 0, stop = 2\<rparr>)"
  let ?arr = "\<lparr>ncols = 2, rows = [[x, y]]\<rparr>"
  show "spectrum_plot np None ?frame (Single ?arr) (500 :: int) (Some mf) None
          (None :: unit option) None () =
        spectrum_plot np None ?frame (Single ?arr) 250 (Some mf) None (None :: unit option)
          None ()"
    using rate_not_used [where np = np and timestep = None and frame = ?frame
        and arrs = "Single ?arr" and rate = "500 :: int" and rate' = 250
        and max_freq = "Some mf" and names = None and figsize = "None :: unit option"
        and save_to = None and kwargs = "()"]
    by (rule conjunct1)
  show "spectrum_plot np None ?frame (Single ?arr) (500 :: int) (Some mf) None
          (None :: unit option) None () =
     (Some NameError,
      [Subplots 2 1 None, Ax 0 0 (Imshow \<lparr>ncols = 1, rows = [[x], [y]]\<rparr> ()),
       Ax 0 0 (Add_patch (Rectangle (0, 0) 1 2 ''r'' ''none'' 2)),
       Ax 0 0 (Set_title ''Seismogram ''), Ax 0 0 (Set_aspect ''auto'')])"
    by (simp add: spectrum_plot_def elements_def imshow_T_def subplots_def name_or_empty_def
        enumerate_eq_zip T_def plot_args_def getitem_frame_def slice_indices_def
        slice_bound_def power_spectrum_def py_getitem_def upt_rec Let_def)
qed

text \<open>C4: the claim is that \<^verbatim>\<open>spectrum_plot\<close> shows the bins with \<open>freq \<le> max_freq\<close> when
  \<^verbatim>\<open>max_freq\<close> is given and all bins when it is not, without an error. The module does
  neither. It never assigns the global \<^verbatim>\<open>timestep\<close>, so every call raises before anything
  is plotted (\<^verbatim>\<open>NameError\<close> when the region of interest is not empty); and were the name
  bound, every call without \<^verbatim>\<open>max_freq\<close> would still raise and plot nothing.\<close>

theorem spectrum_plot_never_plots:
  "fst (spectrum_plot np None frame arrs rate max_freq names figsize save_to kwargs) \<noteq> None \<and>
   (\<forall>r c xs ys lw. Ax r c (Plot xs ys lw) \<notin>
      set (snd (spectrum_plot np None frame arrs rate max_freq names figsize save_to kwargs))) \<and>
   fst (spectrum_plot np timestep frame arrs rate None names figsize save_to kwargs) \<noteq> None \<and>
   (\<forall>r c xs ys lw. Ax r c (Plot xs ys lw) \<notin>
      set (snd (spectrum_plot np timestep frame arrs rate None names figsize save_to kwargs))) \<and>
   (rows (getitem_frame arr frame) \<noteq> [] \<and> 0 < ncols (getitem_frame arr frame) \<longrightarrow>
      spectrum_plot np None frame (Single arr) rate max_freq None figsize save_to kwargs =
        (Some NameError,
         [Subplots 2 1 figsize, Ax 0 0 (Imshow (T arr) kwargs),
          Ax 0 0 (Add_patch (Rectangle (start (fst frame), start (snd frame))
                    (stop (fst frame) - start (fst frame))
                    (stop (snd frame) - start (snd frame)) ''r'' ''none'' 2)),
          Ax 0 0 (Set_title ''Seismogram ''), Ax 0 0 (Set_aspect ''auto'')]))"
proof -
  have unbound: "\<exists>e. plot_args np None frame max_freq arr = Inl e" for arr
    by (rule plot_args_unbound_raises)
  have default: "\<exists>e. plot_args np timestep frame None arr = Inl e" for arr
    by (rule plot_args_without_max_freq)
  have 3: "spectrum_plot np None frame (Single arr) rate max_freq None figsize save_to kwargs =
        (Some NameError,
         [Subplots 2 1 figsize, Ax 0 0 (Imshow (T arr) kwargs),
          Ax 0 0 (Add_patch (Rectangle (start (fst frame), start (snd frame))
                    (stop (fst frame) - start (fst frame))
                    (stop (snd frame) - start (snd frame)) ''r'' ''none'' 2)),
          Ax 0 0 (Set_title ''Seismogram ''), Ax 0 0 (Set_aspect ''auto'')])"
    if "rows (getitem_frame arr frame) \<noteq> []" "0 < ncols (getitem_frame arr frame)"
    by (rule spectrum_plot_single_raises [OF plot_args_unbound [OF that]])
  from spectrum_plot_raises [OF unbound, of arrs rate names figsize save_to kwargs]
    spectrum_plot_raises [OF default, of arrs rate names figsize save_to kwargs] 3
  show ?thesis by blast
qed

theorem spectrum_plot_never_plots_witness:
  "\<forall>np x y mf.
     spectrum_plot np None (\<lparr>start = 0, stop = 1\<rparr>, \<lparr>start = 0, stop = 2\<rparr>)
       (Single \<lparr>ncols = 2, rows = [[x, y]]\<rparr>) (1 :: int) (Some mf) None (None :: unit option)
       None () =
     (Some NameError,
      [Subplots 2 1 None, Ax 0 0 (Imshow \<lparr>ncols = 1, rows = [[x], [y]]\<rparr> ()),
       Ax 0 0 (Add_patch (Rectangle (0, 0) 1 2 ''r'' ''none'' 2)),
       Ax 0 0 (Set_title ''Seismogram ''), Ax 0 0 (Set_aspect ''auto'')])"
proof (intro allI)
  fix np :: "'a numpy" and x y mf :: 'a
  let ?frame = "(\<lparr>start = 0, stop = 1\<rparr>, \<lparr>start = 0, stop = 2\<rparr>)"
  let ?arr = "\<lparr>ncols = 2, rows = [[x, y]]\<rparr>"
  have block: "getitem_frame ?arr ?frame = ?arr"
    by (simp add: getitem_frame_def slice_indices_def slice_bound_def Let_def upt_rec)
  have t: "T ?arr = \<lparr>ncols = 1, rows = [[x], [y]]\<rparr>" by (simp add: T_def upt_rec)
  from spectrum_plot_never_plots [where np = np and frame = ?frame and arr = ?arr
      and rate = "1 :: int" and max_freq = "Some mf" and figsize = "None :: unit option"
      and save_to = None and kwargs = "()"]
  show "spectrum_plot np None ?frame (Single ?arr) (1 :: int) (Some mf) None
          (None :: unit option) None () =
     (Some NameError,
      [Subplots 2 1 None, Ax 0 0 (Imshow \<lparr>ncols = 1, rows = [[x], [y]]\<rparr> ()),
       Ax 0 0 (Add_patch (Rectangle (0, 0) 1 2 ''r'' ''none'' 2)),
       Ax 0 0 (Set_title ''Seismogram ''), Ax 0 0 (Set_aspect ''auto'')])"
    by (simp add: block t)
qed

end
